theory Spec2Isabelle
  imports Main "HOL-Library.Word" "HOL-Library.Sublist"
begin

unbundle bit_operations_syntax

section \<open>Data model of \<open>src/publisher.cpp\<close>\<close>

text \<open>
  Machine types. A C \<open>float\<close> is carried as its 32-bit pattern, so that equality of two
  values is bit identity; \<open>uchar\<close>/\<open>uint8_t\<close> is an 8-bit word, \<open>uint32_t\<close> a 32-bit
  word, and the \<open>int\<close> entries of the convergence map are 32-bit words (two's complement
  under \<open>sint\<close>; the code only compares them for equality).
\<close>

type_synonym float = "32 word"
type_synonym uchar = "8 word"
type_synonym uint32_t = "32 word"
type_synonym int32 = "32 word"

text \<open>CUDA's \<open>float3\<close> and OpenCV's \<open>cv::Vec3b\<close> (three bytes, indexed 0, 1, 2).\<close>

datatype float3 = make_float3 (f3x: float) (f3y: float) (f3z: float)

record Vec3b =
  ch0 :: uchar
  ch1 :: uchar
  ch2 :: uchar

text \<open>
  A \<open>cv::Mat\<close> of element type \<open>'a\<close>: the header (\<open>rows\<close>, \<open>cols\<close>) and the row-major
  buffer. \<open>cv::Mat::at\<close> checks its indices by a debug assertion only: a read outside the
  grid is undefined behaviour of the C++ program, which may fault or go on with whatever
  the memory holds. \<open>Inl OutOfRange\<close> marks a run that makes such a read. It is not a value
  the program returns, and nothing below says what the program does on such a run: every
  statement about a result is either under the invariant of the snapshot, where no read
  leaves a grid, or about a run that ends in \<open>Inr\<close>, where none did.
\<close>

record 'a Mat =
  rows :: nat
  cols :: nat
  data :: "'a list"

datatype error = OutOfRange

definition ebind :: "error + 'a \<Rightarrow> ('a \<Rightarrow> error + 'b) \<Rightarrow> error + 'b" where
  "ebind m f = (case m of Inl e \<Rightarrow> Inl e | Inr v \<Rightarrow> f v)"

definition in_range :: "'a Mat \<Rightarrow> nat \<Rightarrow> nat \<Rightarrow> bool" where
  "in_range m y x = (y < rows m \<and> x < cols m \<and> y * cols m + x < length (data m))"

definition at :: "'a Mat \<Rightarrow> nat \<Rightarrow> nat \<Rightarrow> error + 'a" where
  "at m y x = (if in_range m y x then Inr (data m ! (y * cols m + x)) else Inl OutOfRange)"

text \<open>Writing through the reference that \<open>at\<close> returns: \<open>m.at(y, x) = v\<close>.\<close>

definition at_put :: "'a Mat \<Rightarrow> nat \<Rightarrow> nat \<Rightarrow> 'a \<Rightarrow> error + 'a Mat" where
  "at_put m y x v =
     (if in_range m y x then Inr (m\<lparr>data := (data m)[y * cols m + x := v]\<rparr>)
      else Inl OutOfRange)"

text \<open>
  A counting loop \<open>for (int i = 0; i < n; ++i) body\<close> runs its body over \<open>[0..<n]\<close>, threading
  the mutated state and stopping at the first failed read.
\<close>

fun for_loop :: "'i list \<Rightarrow> ('i \<Rightarrow> 's \<Rightarrow> error + 's) \<Rightarrow> 's \<Rightarrow> error + 's" where
  "for_loop [] body s = Inr s"
| "for_loop (i # is) body s =
     (case body i s of Inl e \<Rightarrow> Inl e | Inr s' \<Rightarrow> for_loop is body s')"

subsection \<open>Points and clouds\<close>

text \<open>
  \<open>PointType\<close> carries an intensity, \<open>PointTypeRGB\<close> the packed colour in a float-typed
  field. A cloud is its header and its vector of points.
\<close>

record PointType =
  p_x :: float
  p_y :: float
  p_z :: float
  intensity :: float

record PointTypeRGB =
  q_x :: float
  q_y :: float
  q_z :: float
  rgb :: float

record 'p PointCloud =
  frame_id :: string
  stamp :: nat
  points :: "'p list"

subsection \<open>Colour packing\<close>

text \<open>
  Line 145: \<open>(uint32_t)v[2] << 16 | (uint32_t)v[1] << 8 | (uint32_t)v[0]\<close>, and line 146:
  the bits of that integer are stored in the float field unchanged
  (\<open>*reinterpret_cast<float*>(&rgb)\<close>).
\<close>

definition pack_rgb :: "Vec3b \<Rightarrow> uint32_t" where
  "pack_rgb v = push_bit 16 (ucast (ch2 v)) OR push_bit 8 (ucast (ch1 v)) OR ucast (ch0 v)"

definition reinterpret_float :: "uint32_t \<Rightarrow> float" where
  "reinterpret_float w = w"

text \<open>
  The inverse rule in the words of the specification: R is the high byte of the 24-bit
  value, G the middle byte, B the low byte. This definition follows the specification,
  not the source (the source has no unpacking).
\<close>

definition unpack_rgb_spec :: "float \<Rightarrow> uchar \<times> uchar \<times> uchar" where
  "unpack_rgb_spec w = (ucast (drop_bit 16 w), ucast (drop_bit 8 w), ucast w)"

subsection \<open>The depth-map snapshot and what the missing headers declare\<close>

text \<open>
  \<open>rmd::Depthmap\<close> is read through its getters only; the record has one field per getter
  that \<open>publisher.cpp\<close> calls. The pose type \<open>rmd::SE3<float>\<close> is the parameter \<open>'t\<close>.
\<close>

record 't Depthmap =
  getDepthmap :: "float Mat"
  getConvergenceMap :: "int32 Mat"
  getReferenceImage :: "uchar Mat"
  getReferenceImageRGB :: "Vec3b Mat"
  getReferenceMask :: "uchar Mat"
  getT_world_ref :: 't
  getFx :: float
  getFy :: float
  getCx :: float
  getCy :: float
  getHeight :: nat
  getWidth :: nat

text \<open>
  What \<open>publisher.cpp\<close> uses and \<open>rmd/seed_matrix.cuh\<close>, the SE3 header and the float
  unit define is a parameter of the model: the two enumerators of
  \<open>rmd::ConvergenceState\<close>, the conversions of \<open>int\<close> and \<open>uint8_t\<close> to \<open>float\<close>, float
  subtraction and division, \<open>normalize\<close>, the product of a \<open>float3\<close> with a \<open>float\<close>, and
  the product of a pose with a \<open>float3\<close>. The theorems hold for every choice of them.
\<close>

record 't rmd =
  CONVERGED :: int32
  DIVERGED :: int32
  int_to_float :: "int \<Rightarrow> float"
  uchar_to_float :: "uchar \<Rightarrow> float"
  fsub :: "float \<Rightarrow> float \<Rightarrow> float"
  fdiv :: "float \<Rightarrow> float \<Rightarrow> float"
  normalize :: "float3 \<Rightarrow> float3"
  scale :: "float3 \<Rightarrow> float \<Rightarrow> float3"
  transform :: "'t \<Rightarrow> float3 \<Rightarrow> float3"

text \<open>The literal \<open>1.0f\<close>, as its IEEE-754 single-precision bit pattern.\<close>

definition one_f :: float where
  "one_f = 0x3F800000"

subsection \<open>The publisher\<close>

text \<open>
  What the transport receives: one entry per \<open>publish\<close> call, in order. An image message
  carries its frame id, encoding and stamp; a cloud message is the cloud as it stands at
  the call.
\<close>

datatype message =
  Depth_msg string string nat "float Mat"
| Convergence_msg string string nat "Vec3b Mat"
| PointCloud_msg "PointType PointCloud"
| PointCloudRGB_msg "PointTypeRGB PointCloud"

text \<open>
  The members of \<open>rmd::Publisher\<close>: the shared depth map, the two clouds \<open>pc_\<close> and
  \<open>pc_rgb_\<close>, the image \<open>colored_\<close>; with them the two things a call reads from ROS
  (\<open>nh_.ok()\<close> and \<open>ros::Time::now()\<close>) and the messages handed to the transport so far.
\<close>

record 't Publisher =
  depthmap :: "'t Depthmap"
  pc :: "PointType PointCloud"
  pc_rgb :: "PointTypeRGB PointCloud"
  colored :: "Vec3b Mat"
  nh_ok :: bool
  now :: nat
  published :: "message list"

definition empty_cloud :: "'p PointCloud" where
  "empty_cloud = \<lparr>frame_id = [], stamp = 0, points = []\<rparr>"

definition push_back :: "'p PointCloud \<Rightarrow> 'p \<Rightarrow> 'p PointCloud" where
  "push_back cloud p = cloud\<lparr>points := points cloud @ [p]\<rparr>"

text \<open>
  The constructor (lines 27-40): both clouds start empty; \<open>colored_.create\<close> allocates
  \<open>height * width\<close> pixels whose content is not initialised (\<open>uninit\<close> stands for it).
\<close>

definition Publisher_new :: "bool \<Rightarrow> nat \<Rightarrow> (nat \<Rightarrow> Vec3b) \<Rightarrow> 't Depthmap \<Rightarrow> 't Publisher" where
  "Publisher_new ok t uninit dm =
     \<lparr>depthmap = dm, pc = empty_cloud, pc_rgb = empty_cloud,
      colored = \<lparr>rows = getHeight dm, cols = getWidth dm,
                 data = map uninit [0..<getHeight dm * getWidth dm]\<rparr>,
      nh_ok = ok, now = t, published = []\<rparr>"

text \<open>\<open>publishDepthmap\<close> (lines 42-54).\<close>

definition publishDepthmap :: "'t Publisher \<Rightarrow> 't Publisher" where
  "publishDepthmap st =
     (if nh_ok st
      then st\<lparr>published := published st @
             [Depth_msg ''depthmap'' ''32FC1'' (now st) (getDepthmap (depthmap st))]\<rparr>
      else st)"

text \<open>Lines 75-76 and 132-133: the ray through pixel \<open>(x, y)\<close>, scaled and moved to the world.\<close>

definition back_project :: "'t rmd \<Rightarrow> 't Depthmap \<Rightarrow> nat \<Rightarrow> nat \<Rightarrow> float \<Rightarrow> float3" where
  "back_project env dm y x d =
     (let f = normalize env (make_float3
                (fdiv env (fsub env (int_to_float env (int x)) (getCx dm)) (getFx dm))
                (fdiv env (fsub env (int_to_float env (int y)) (getCy dm)) (getFy dm))
                one_f)
      in transform env (getT_world_ref dm) (scale env f d))"

text \<open>\<open>publishPointCloud\<close> (lines 56-106): the body of the inner loop, then the function.\<close>

definition pc_body :: "'t rmd \<Rightarrow> 't Depthmap \<Rightarrow> nat \<Rightarrow> nat \<Rightarrow>
    PointType PointCloud \<Rightarrow> error + PointType PointCloud" where
  "pc_body env dm y x cloud =
     ebind (at (getDepthmap dm) y x) (\<lambda>d.
       let xyz = back_project env dm y x d in
       ebind (at (getConvergenceMap dm) y x) (\<lambda>c.
         if CONVERGED env = c
         then ebind (at (getReferenceImage dm) y x) (\<lambda>i.
                Inr (push_back cloud
                  \<lparr>p_x = f3x xyz, p_y = f3y xyz, p_z = f3z xyz,
                   intensity = uchar_to_float env i\<rparr>))
         else Inr cloud))"

definition publishPointCloud :: "'t rmd \<Rightarrow> 't Publisher \<Rightarrow> error + 't Publisher" where
  "publishPointCloud env st =
     (let dm = depthmap st; depth = getDepthmap dm in
      ebind (for_loop [0..<rows depth] (\<lambda>y.
               for_loop [0..<cols depth] (\<lambda>x. pc_body env dm y x)) (pc st))
        (\<lambda>cloud.
           if points cloud \<noteq> [] \<and> nh_ok st
           then let cloud' = cloud\<lparr>frame_id := ''world'', stamp := now st\<rparr>
                in Inr (st\<lparr>pc := cloud',
                           published := published st @ [PointCloud_msg cloud']\<rparr>)
           else Inr (st\<lparr>pc := cloud\<rparr>)))"

text \<open>
  \<open>publishPointCloudRGB\<close> (lines 110-169). The mask is read only after the convergence
  test has passed (\<open>&&\<close> evaluates its right operand only then).
\<close>

definition pc_rgb_body :: "'t rmd \<Rightarrow> 't Depthmap \<Rightarrow> nat \<Rightarrow> nat \<Rightarrow>
    PointTypeRGB PointCloud \<Rightarrow> error + PointTypeRGB PointCloud" where
  "pc_rgb_body env dm y x cloud =
     ebind (at (getDepthmap dm) y x) (\<lambda>d.
       let xyz = back_project env dm y x d in
       ebind (at (getConvergenceMap dm) y x) (\<lambda>c.
         if CONVERGED env = c
         then ebind (at (getReferenceMask dm) y x) (\<lambda>m.
                if uint m = 1
                then ebind (at (getReferenceImageRGB dm) y x) (\<lambda>v.
                       Inr (push_back cloud
                         \<lparr>q_x = f3x xyz, q_y = f3y xyz, q_z = f3z xyz,
                          rgb = reinterpret_float (pack_rgb v)\<rparr>))
                else Inr cloud)
         else Inr cloud))"

definition publishPointCloudRGB :: "'t rmd \<Rightarrow> 't Publisher \<Rightarrow> error + 't Publisher" where
  "publishPointCloudRGB env st =
     (let dm = depthmap st; depth = getDepthmap dm in
      ebind (for_loop [0..<rows depth] (\<lambda>y.
               for_loop [0..<cols depth] (\<lambda>x. pc_rgb_body env dm y x)) (pc_rgb st))
        (\<lambda>cloud.
           if points cloud \<noteq> [] \<and> nh_ok st
           then let cloud' = cloud\<lparr>frame_id := ''world'', stamp := now st\<rparr>
                in Inr (st\<lparr>pc_rgb := cloud',
                           published := published st @ [PointCloudRGB_msg cloud']\<rparr>)
           else Inr (st\<lparr>pc_rgb := cloud\<rparr>)))"

text \<open>\<open>publishDepthmapAndPointCloud\<close> (lines 172-177).\<close>

definition publishDepthmapAndPointCloud :: "'t rmd \<Rightarrow> 't Publisher \<Rightarrow> error + 't Publisher" where
  "publishDepthmapAndPointCloud env st =
     ebind (publishPointCloud env (publishDepthmap st)) (publishPointCloudRGB env)"

text \<open>
  \<open>publishConvergenceMap\<close> (lines 179-214). \<open>cv::cvtColor\<close> with \<open>CV_GRAY2BGR\<close> is OpenCV's:
  it gives \<open>colored_\<close> the size of the source and copies the gray value into each of the
  three channels.
\<close>

definition cvtColor_GRAY2BGR :: "uchar Mat \<Rightarrow> Vec3b Mat" where
  "cvtColor_GRAY2BGR src =
     \<lparr>rows = rows src, cols = cols src,
      data = map (\<lambda>g. \<lparr>ch0 = g, ch1 = g, ch2 = g\<rparr>) (data src)\<rparr>"

definition conv_body :: "'t rmd \<Rightarrow> int32 Mat \<Rightarrow> nat \<Rightarrow> nat \<Rightarrow> Vec3b Mat \<Rightarrow> error + Vec3b Mat" where
  "conv_body env convergence r c col =
     ebind (at convergence r c) (\<lambda>s.
       if s = CONVERGED env
       then ebind (at col r c) (\<lambda>v. at_put col r c (v\<lparr>ch0 := 255\<rparr>))
       else if s = DIVERGED env
       then ebind (at col r c) (\<lambda>v. at_put col r c (v\<lparr>ch2 := 255\<rparr>))
       else Inr col)"

definition publishConvergenceMap :: "'t rmd \<Rightarrow> 't Publisher \<Rightarrow> error + 't Publisher" where
  "publishConvergenceMap env st =
     (let convergence = getConvergenceMap (depthmap st);
          ref_img = getReferenceImage (depthmap st);
          col0 = cvtColor_GRAY2BGR ref_img in
      ebind (for_loop [0..<rows col0] (\<lambda>r.
               for_loop [0..<cols col0] (\<lambda>c. conv_body env convergence r c)) col0)
        (\<lambda>col.
           if nh_ok st
           then Inr (st\<lparr>colored := col,
                       published := published st @
                         [Convergence_msg ''convergence_map'' ''bgr8'' (now st) col]\<rparr>)
           else Inr (st\<lparr>colored := col\<rparr>)))"

subsection \<open>Sequences of calls\<close>

text \<open>
  Between two calls the estimator may overwrite the shared depth map, and the node's
  state and the clock may change; a run is a list of such events and calls.
\<close>

datatype call =
  PublishDepthmap
| PublishPointCloud
| PublishPointCloudRGB
| PublishDepthmapAndPointCloud
| PublishConvergenceMap

datatype 't event =
  Call call
| Estimator "'t Depthmap"
| Ros bool nat

fun invoke :: "'t rmd \<Rightarrow> call \<Rightarrow> 't Publisher \<Rightarrow> error + 't Publisher" where
  "invoke env PublishDepthmap st = Inr (publishDepthmap st)"
| "invoke env PublishPointCloud st = publishPointCloud env st"
| "invoke env PublishPointCloudRGB st = publishPointCloudRGB env st"
| "invoke env PublishDepthmapAndPointCloud st = publishDepthmapAndPointCloud env st"
| "invoke env PublishConvergenceMap st = publishConvergenceMap env st"

fun step :: "'t rmd \<Rightarrow> 't event \<Rightarrow> 't Publisher \<Rightarrow> error + 't Publisher" where
  "step env (Call c) st = invoke env c st"
| "step env (Estimator dm) st = Inr (st\<lparr>depthmap := dm\<rparr>)"
| "step env (Ros ok t) st = Inr (st\<lparr>nh_ok := ok, now := t\<rparr>)"

definition run :: "'t rmd \<Rightarrow> 't event list \<Rightarrow> 't Publisher \<Rightarrow> error + 't Publisher" where
  "run env evs st = for_loop evs (step env) st"

subsection \<open>Vocabulary of the statements\<close>

text \<open>
  The pixels in raster-scan order (row by row, each row left to right), the order itself,
  and the element that \<open>at\<close> reads at a pixel inside the grid.
\<close>

definition raster :: "nat \<Rightarrow> nat \<Rightarrow> (nat \<times> nat) list" where
  "raster h w = List.product [0..<h] [0..<w]"

definition raster_less :: "nat \<times> nat \<Rightarrow> nat \<times> nat \<Rightarrow> bool" where
  "raster_less p q = (fst p < fst q \<or> (fst p = fst q \<and> snd p < snd q))"

definition elem :: "'a Mat \<Rightarrow> nat \<Rightarrow> nat \<Rightarrow> 'a" where
  "elem m y x = data m ! (y * cols m + x)"

text \<open>
  The invariant of the snapshot: a grid's buffer has \<open>rows * cols\<close> elements, and the
  grids that one operation reads have the same dimensions.
\<close>

definition wf_Mat :: "'a Mat \<Rightarrow> bool" where
  "wf_Mat m = (length (data m) = rows m * cols m)"

definition same_size :: "'a Mat \<Rightarrow> 'b Mat \<Rightarrow> bool" where
  "same_size a b = (wf_Mat a \<and> wf_Mat b \<and> rows a = rows b \<and> cols a = cols b)"

definition pc_pre :: "'t Depthmap \<Rightarrow> bool" where
  "pc_pre dm = (same_size (getDepthmap dm) (getConvergenceMap dm)
                \<and> same_size (getDepthmap dm) (getReferenceImage dm))"

definition pc_rgb_pre :: "'t Depthmap \<Rightarrow> bool" where
  "pc_rgb_pre dm = (same_size (getDepthmap dm) (getConvergenceMap dm)
                    \<and> same_size (getDepthmap dm) (getReferenceMask dm)
                    \<and> same_size (getDepthmap dm) (getReferenceImageRGB dm))"

definition conv_pre :: "'t Depthmap \<Rightarrow> bool" where
  "conv_pre dm = same_size (getReferenceImage dm) (getConvergenceMap dm)"

text \<open>
  The pixels that pass the gate of each projector, in raster order, and the point that
  each projector builds at a pixel.
\<close>

definition converged_pixels :: "'t rmd \<Rightarrow> 't Depthmap \<Rightarrow> (nat \<times> nat) list" where
  "converged_pixels env dm =
     filter (\<lambda>p. at (getConvergenceMap dm) (fst p) (snd p) = Inr (CONVERGED env))
       (raster (rows (getDepthmap dm)) (cols (getDepthmap dm)))"

definition masked_pixels :: "'t rmd \<Rightarrow> 't Depthmap \<Rightarrow> (nat \<times> nat) list" where
  "masked_pixels env dm =
     filter (\<lambda>p. at (getConvergenceMap dm) (fst p) (snd p) = Inr (CONVERGED env)
                \<and> at (getReferenceMask dm) (fst p) (snd p) = Inr 1)
       (raster (rows (getDepthmap dm)) (cols (getDepthmap dm)))"

definition pc_point :: "'t rmd \<Rightarrow> 't Depthmap \<Rightarrow> nat \<times> nat \<Rightarrow> PointType" where
  "pc_point env dm p =
     (let xyz = back_project env dm (fst p) (snd p) (elem (getDepthmap dm) (fst p) (snd p))
      in \<lparr>p_x = f3x xyz, p_y = f3y xyz, p_z = f3z xyz,
          intensity = uchar_to_float env (elem (getReferenceImage dm) (fst p) (snd p))\<rparr>)"

definition pc_rgb_point :: "'t rmd \<Rightarrow> 't Depthmap \<Rightarrow> nat \<times> nat \<Rightarrow> PointTypeRGB" where
  "pc_rgb_point env dm p =
     (let xyz = back_project env dm (fst p) (snd p) (elem (getDepthmap dm) (fst p) (snd p))
      in \<lparr>q_x = f3x xyz, q_y = f3y xyz, q_z = f3z xyz,
          rgb = reinterpret_float
                  (pack_rgb (elem (getReferenceImageRGB dm) (fst p) (snd p)))\<rparr>)"

text \<open>The gray value copied into the three channels, and the tint of one pixel.\<close>

definition gray3 :: "uchar \<Rightarrow> Vec3b" where
  "gray3 g = \<lparr>ch0 = g, ch1 = g, ch2 = g\<rparr>"

definition tint :: "'t rmd \<Rightarrow> int32 \<Rightarrow> uchar \<Rightarrow> Vec3b" where
  "tint env s g =
     (if s = CONVERGED env then \<lparr>ch0 = 255, ch1 = g, ch2 = g\<rparr>
      else if s = DIVERGED env then \<lparr>ch0 = g, ch1 = g, ch2 = 255\<rparr>
      else gray3 g)"

subsection \<open>Closed forms\<close>

text \<open>
  The points one call of each projector appends: the point of every pixel that passes its
  gate, in raster order.
\<close>

definition pc_appended :: "'t rmd \<Rightarrow> 't Depthmap \<Rightarrow> PointType list" where
  "pc_appended env dm = map (pc_point env dm) (converged_pixels env dm)"

definition pc_rgb_appended :: "'t rmd \<Rightarrow> 't Depthmap \<Rightarrow> PointTypeRGB list" where
  "pc_rgb_appended env dm = map (pc_rgb_point env dm) (masked_pixels env dm)"

text \<open>
  The state after each operation in closed form (proved below to be what the loops compute):
  the cloud extended by the appended points and published when it is not empty and the node
  is up; the image with every pixel tinted.
\<close>

definition pc_after :: "'t rmd \<Rightarrow> 't Publisher \<Rightarrow> 't Publisher" where
  "pc_after env st =
     (let cloud = (pc st)\<lparr>points := points (pc st) @ pc_appended env (depthmap st)\<rparr> in
      if points cloud \<noteq> [] \<and> nh_ok st
      then let cloud' = cloud\<lparr>frame_id := ''world'', stamp := now st\<rparr>
           in st\<lparr>pc := cloud', published := published st @ [PointCloud_msg cloud']\<rparr>
      else st\<lparr>pc := cloud\<rparr>)"

definition pc_rgb_after :: "'t rmd \<Rightarrow> 't Publisher \<Rightarrow> 't Publisher" where
  "pc_rgb_after env st =
     (let cloud = (pc_rgb st)\<lparr>points := points (pc_rgb st) @ pc_rgb_appended env (depthmap st)\<rparr> in
      if points cloud \<noteq> [] \<and> nh_ok st
      then let cloud' = cloud\<lparr>frame_id := ''world'', stamp := now st\<rparr>
           in st\<lparr>pc_rgb := cloud', published := published st @ [PointCloudRGB_msg cloud']\<rparr>
      else st\<lparr>pc_rgb := cloud\<rparr>)"

text \<open>
  What the \<open>switch\<close> of lines 191-201 does to one pixel of \<open>colored_\<close>, and the whole image
  after the loops: pixel \<open>i\<close> of the buffer is the tint of the \<open>i\<close>-th state and gray value.
\<close>

definition paint :: "'t rmd \<Rightarrow> int32 \<Rightarrow> Vec3b \<Rightarrow> Vec3b" where
  "paint env s v =
     (if s = CONVERGED env then v\<lparr>ch0 := 255\<rparr>
      else if s = DIVERGED env then v\<lparr>ch2 := 255\<rparr>
      else v)"

definition render :: "'t rmd \<Rightarrow> int32 Mat \<Rightarrow> uchar Mat \<Rightarrow> Vec3b Mat" where
  "render env convergence ref_img =
     \<lparr>rows = rows ref_img, cols = cols ref_img,
      data = map (\<lambda>i. tint env (data convergence ! i) (data ref_img ! i))
               [0..<length (data ref_img)]\<rparr>"

definition conv_after :: "'t rmd \<Rightarrow> 't Publisher \<Rightarrow> 't Publisher" where
  "conv_after env st =
     (let col = render env (getConvergenceMap (depthmap st)) (getReferenceImage (depthmap st)) in
      if nh_ok st
      then st\<lparr>colored := col,
              published := published st @
                [Convergence_msg ''convergence_map'' ''bgr8'' (now st) col]\<rparr>
      else st\<lparr>colored := col\<rparr>)"

subsection \<open>Concrete inputs\<close>

text \<open>
  One choice of the parameters, to evaluate the model on examples: the enumerators are 1
  and 3, and word arithmetic stands where the float unit is (no example depends on a
  coordinate). \<open>grid2\<close> is a 2 x 2 grid.
\<close>

definition sample_rmd :: "unit rmd" where
  "sample_rmd =
     \<lparr>CONVERGED = 1, DIVERGED = 3,
      int_to_float = word_of_int, uchar_to_float = ucast,
      fsub = (\<lambda>a b. a - b), fdiv = (\<lambda>a b. a div b),
      normalize = (\<lambda>v. v),
      scale = (\<lambda>v d. make_float3 (f3x v * d) (f3y v * d) (f3z v * d)),
      transform = (\<lambda>t v. v)\<rparr>"

definition grid2 :: "'a \<Rightarrow> 'a \<Rightarrow> 'a \<Rightarrow> 'a \<Rightarrow> 'a Mat" where
  "grid2 a b c d = \<lparr>rows = 2, cols = 2, data = [a, b, c, d]\<rparr>"

text \<open>
  A 2 x 2 snapshot: pixels (0,0) and (1,1) are CONVERGED, (1,0) is DIVERGED, (0,1) is
  neither; the mask is 1 at (0,0), 255 at (1,1).
\<close>

definition sample_dm :: "unit Depthmap" where
  "sample_dm =
     \<lparr>getDepthmap = grid2 5 6 7 8,
      getConvergenceMap = grid2 1 0 3 1,
      getReferenceImage = grid2 10 20 30 40,
      getReferenceImageRGB = grid2 \<lparr>ch0 = 30, ch1 = 20, ch2 = 10\<rparr> (gray3 1) (gray3 2) (gray3 3),
      getReferenceMask = grid2 1 1 0 255,
      getT_world_ref = (),
      getFx = 1, getFy = 1, getCx = 0, getCy = 0,
      getHeight = 2, getWidth = 2\<rparr>"

definition sample_st :: "unit Publisher" where
  "sample_st = Publisher_new True 7 (\<lambda>i. gray3 0) sample_dm"

text \<open>
  Two snapshots seen through the same camera with the same gates: equal convergence map,
  mask, pose and intrinsics. Two grids agree on a list of pixels when \<open>at\<close> reads the same
  there.
\<close>

definition same_gates :: "'t Depthmap \<Rightarrow> 't Depthmap \<Rightarrow> bool" where
  "same_gates a b =
     (getConvergenceMap a = getConvergenceMap b \<and> getReferenceMask a = getReferenceMask b
      \<and> getT_world_ref a = getT_world_ref b
      \<and> getFx a = getFx b \<and> getFy a = getFy b \<and> getCx a = getCx b \<and> getCy a = getCy b)"

definition agree_on :: "(nat \<times> nat) list \<Rightarrow> 'a Mat \<Rightarrow> 'a Mat \<Rightarrow> bool" where
  "agree_on ps a b = (\<forall>p \<in> set ps. at a (fst p) (snd p) = at b (fst p) (snd p))"

text \<open>
  A second sample snapshot: it differs from \<open>sample_dm\<close> in the depth and gray value of the
  pixels (0,1) and (1,0), which are not CONVERGED, and in the colour of every pixel but
  (0,0), the only one that is CONVERGED with mask 1.
\<close>

definition sample_dm2 :: "unit Depthmap" where
  "sample_dm2 =
     sample_dm\<lparr>getDepthmap := grid2 5 99 98 8,
               getReferenceImage := grid2 10 77 78 40,
               getReferenceImageRGB :=
                 grid2 \<lparr>ch0 = 30, ch1 = 20, ch2 = 10\<rparr> (gray3 9) (gray3 8) (gray3 7)\<rparr>"

text \<open>The sample snapshot with no CONVERGED pixel; pixel (1,0) is DIVERGED.\<close>

definition diverged_st :: "unit Publisher" where
  "diverged_st =
     Publisher_new True 7 (\<lambda>i. gray3 0) (sample_dm\<lparr>getConvergenceMap := grid2 0 0 3 0\<rparr>)"

text \<open>The snapshot invariant for all operations together.\<close>

definition snapshot_ok :: "'t Depthmap \<Rightarrow> bool" where
  "snapshot_ok dm = (pc_pre dm \<and> pc_rgb_pre dm \<and> conv_pre dm)"

text \<open>
  The sample snapshot with no CONVERGED pixel in which the DIVERGED pixel (1,0) has the
  gray value 255.
\<close>

definition diverged_white_st :: "unit Publisher" where
  "diverged_white_st =
     Publisher_new True 7 (\<lambda>i. gray3 0)
       (sample_dm\<lparr>getConvergenceMap := grid2 0 0 3 0, getReferenceImage := grid2 10 20 255 40\<rparr>)"

section \<open>The loops in closed form\<close>

lemma ebind_Inr [simp]: "ebind (Inr v) f = f v"
  by (simp add: ebind_def)

lemma ebind_Inl [simp]: "ebind (Inl e) f = Inl e"
  by (simp add: ebind_def)

lemma ebind_eq_Inr: "ebind m f = Inr r \<longleftrightarrow> (\<exists>v. m = Inr v \<and> f v = Inr r)"
  by (cases m) simp_all

lemma for_loop_append:
  "for_loop (as @ bs) body s = ebind (for_loop as body s) (for_loop bs body)"
  by (induction as arbitrary: s) (auto split: sum.splits)

lemma for_loop_map: "for_loop (map f xs) body s = for_loop xs (\<lambda>i. body (f i)) s"
  by (induction xs arbitrary: s) (auto split: sum.splits)

lemma for_loop_nested:
  "for_loop ys (\<lambda>y. for_loop xs (body y)) s
   = for_loop (List.product ys xs) (\<lambda>p. body (fst p) (snd p)) s"
proof (induction ys arbitrary: s)
  case Nil
  show ?case by simp
next
  case (Cons y ys)
  show ?case
    by (simp add: for_loop_append for_loop_map Cons.IH ebind_def split: sum.splits)
qed

lemma for_loop_total:
  "(\<And>i s. i \<in> set is \<Longrightarrow> \<exists>s'. body i s = Inr s') \<Longrightarrow> \<exists>s'. for_loop is body s = Inr s'"
proof (induction "is" arbitrary: s)
  case Nil
  show ?case by simp
next
  case (Cons i "is")
  obtain s1 where "body i s = Inr s1"
    using Cons.prems [of i s] by auto
  moreover have "\<exists>s'. for_loop is body s1 = Inr s'"
    by (rule Cons.IH) (simp add: Cons.prems)
  ultimately show ?case by simp
qed

lemma for_loop_push_back:
  assumes step: "\<And>i s s'. i \<in> set is \<Longrightarrow> body i s = Inr s' \<Longrightarrow>
                   s' = (if P i then push_back s (g i) else s)"
    and run: "for_loop is body s = Inr s'"
  shows "s' = s\<lparr>points := points s @ map g (filter P is)\<rparr>"
  using assms
proof (induction "is" arbitrary: s)
  case Nil
  then show ?case by simp
next
  case (Cons i "is")
  from Cons.prems(2) obtain s1 where b: "body i s = Inr s1" and r: "for_loop is body s1 = Inr s'"
    by (auto split: sum.splits)
  have s1: "s1 = (if P i then push_back s (g i) else s)"
    using Cons.prems(1) [of i s s1] b by simp
  have "s' = s1\<lparr>points := points s1 @ map g (filter P is)\<rparr>"
    by (rule Cons.IH [OF _ r]) (simp add: Cons.prems(1))
  then show ?case
    by (simp add: s1 push_back_def)
qed

lemma product_append: "List.product (xs @ ys) zs = List.product xs zs @ List.product ys zs"
  by (induction xs) simp_all

lemma raster_Suc: "raster (Suc h) w = raster h w @ map (Pair h) [0..<w]"
  by (simp add: raster_def product_append)

lemma upt_block: "[0..<h * w + w] = [0..<h * w] @ map (\<lambda>x. h * w + x) [0..<(w::nat)]"
proof -
  have "[0..<h * w + w] = [0..<h * w] @ [h * w..<h * w + w]"
    by (rule upt_add_eq_append) simp
  moreover have "map (\<lambda>x. x + h * w) [0..<w] = [h * w..<w + h * w]"
    by (rule map_add_upt)
  then have "map (\<lambda>x. h * w + x) [0..<w] = [h * w..<h * w + w]"
    by (simp only: add.commute [of "h * w"])
  ultimately show ?thesis by simp
qed

lemma raster_index: "map (\<lambda>p. fst p * w + snd p) (raster h w) = [0..<h * w]"
proof (induction h)
  case 0
  show ?case by (simp add: raster_def)
next
  case (Suc h)
  have "map (\<lambda>p. fst p * w + snd p) (raster (Suc h) w)
        = [0..<h * w] @ map (\<lambda>x. h * w + x) [0..<w]"
    by (simp add: raster_Suc Suc comp_def)
  also have "\<dots> = [0..<h * w + w]"
    by (rule upt_block [symmetric])
  also have "h * w + w = Suc h * w"
    by simp
  finally show ?case .
qed

lemma set_raster: "set (raster h w) = {p. fst p < h \<and> snd p < w}"
  by (auto simp: raster_def)

lemma raster_bound: "y < h \<Longrightarrow> x < w \<Longrightarrow> y * w + x < h * (w::nat)"
proof -
  assume "y < h" "x < w"
  then have "y * w + x < Suc y * w" by simp
  also have "\<dots> \<le> h * w" using \<open>y < h\<close> by (intro mult_le_mono1) simp
  finally show ?thesis .
qed

lemma sorted_raster: "sorted_wrt raster_less (raster h w)"
proof (induction h)
  case 0
  show ?case by (simp add: raster_def)
next
  case (Suc h)
  have "sorted_wrt raster_less (map (Pair h) [0..<w])"
    by (simp add: sorted_wrt_map raster_less_def)
  moreover have "\<forall>p\<in>set (raster h w). \<forall>q\<in>set (map (Pair h) [0..<w]). raster_less p q"
    by (auto simp: set_raster raster_less_def)
  ultimately show ?case
    using Suc by (simp only: raster_Suc sorted_wrt_append)
qed

lemma at_in_range: "in_range m y x \<Longrightarrow> at m y x = Inr (elem m y x)"
  by (simp add: at_def elem_def)

lemma at_eq_Inr: "at m y x = Inr v \<longleftrightarrow> in_range m y x \<and> elem m y x = v"
  by (simp add: at_def elem_def)

lemma in_range_wf: "wf_Mat m \<Longrightarrow> y < rows m \<Longrightarrow> x < cols m \<Longrightarrow> in_range m y x"
  by (simp add: in_range_def wf_Mat_def raster_bound)

lemma in_range_same_size:
  "same_size a b \<Longrightarrow> y < rows a \<Longrightarrow> x < cols a \<Longrightarrow> in_range a y x \<and> in_range b y x"
  by (simp add: same_size_def in_range_wf)

lemma pc_body_Inr:
  assumes "pc_body env dm y x cloud = Inr c1"
  shows "c1 = (if at (getConvergenceMap dm) y x = Inr (CONVERGED env)
               then push_back cloud (pc_point env dm (y, x)) else cloud)"
  using assms
  by (auto simp: pc_body_def pc_point_def Let_def ebind_eq_Inr at_eq_Inr split: if_splits)

lemma pc_body_total:
  assumes "in_range (getDepthmap dm) y x" "in_range (getConvergenceMap dm) y x"
    "in_range (getReferenceImage dm) y x"
  shows "\<exists>c1. pc_body env dm y x cloud = Inr c1"
  using assms by (simp add: pc_body_def Let_def at_in_range)

lemma uint_eq_1: "uint (m::'a::len word) = 1 \<longleftrightarrow> m = 1"
  by (simp add: word_uint_eq_iff)

lemma pc_rgb_body_Inr:
  assumes "pc_rgb_body env dm y x cloud = Inr c1"
  shows "c1 = (if at (getConvergenceMap dm) y x = Inr (CONVERGED env)
                  \<and> at (getReferenceMask dm) y x = Inr 1
               then push_back cloud (pc_rgb_point env dm (y, x)) else cloud)"
  using assms
  by (auto simp: pc_rgb_body_def pc_rgb_point_def Let_def ebind_eq_Inr at_eq_Inr uint_eq_1
      split: if_splits)

lemma pc_rgb_body_total:
  assumes "in_range (getDepthmap dm) y x" "in_range (getConvergenceMap dm) y x"
    "in_range (getReferenceMask dm) y x" "in_range (getReferenceImageRGB dm) y x"
  shows "\<exists>c1. pc_rgb_body env dm y x cloud = Inr c1"
  using assms by (simp add: pc_rgb_body_def Let_def at_in_range)

lemma in_range_same_size1:
  "same_size a b \<Longrightarrow> y < rows a \<Longrightarrow> x < cols a \<Longrightarrow> in_range a y x"
  by (simp add: same_size_def in_range_wf)

lemma in_range_same_size2:
  "same_size a b \<Longrightarrow> y < rows a \<Longrightarrow> x < cols a \<Longrightarrow> in_range b y x"
  by (simp add: same_size_def in_range_wf)

lemma pc_loops_Inr:
  assumes "for_loop [0..<rows (getDepthmap dm)] (\<lambda>y.
             for_loop [0..<cols (getDepthmap dm)] (\<lambda>x. pc_body env dm y x)) cloud = Inr c'"
  shows "c' = cloud\<lparr>points := points cloud @ pc_appended env dm\<rparr>"
proof -
  have "for_loop (raster (rows (getDepthmap dm)) (cols (getDepthmap dm)))
          (\<lambda>p. pc_body env dm (fst p) (snd p)) cloud = Inr c'"
    using assms by (simp add: for_loop_nested raster_def)
  then show ?thesis
    unfolding pc_appended_def converged_pixels_def
    by (rule for_loop_push_back [rotated]) (auto dest: pc_body_Inr)
qed

lemma pc_loops_total:
  assumes "pc_pre dm"
  shows "\<exists>c'. for_loop [0..<rows (getDepthmap dm)] (\<lambda>y.
             for_loop [0..<cols (getDepthmap dm)] (\<lambda>x. pc_body env dm y x)) cloud = Inr c'"
proof -
  have "\<exists>c'. for_loop (raster (rows (getDepthmap dm)) (cols (getDepthmap dm)))
          (\<lambda>p. pc_body env dm (fst p) (snd p)) cloud = Inr c'"
  proof (rule for_loop_total)
    fix p :: "nat \<times> nat" and s :: "PointType PointCloud"
    assume "p \<in> set (raster (rows (getDepthmap dm)) (cols (getDepthmap dm)))"
    then have "fst p < rows (getDepthmap dm)" "snd p < cols (getDepthmap dm)"
      by (simp_all add: set_raster)
    with assms show "\<exists>s'. pc_body env dm (fst p) (snd p) s = Inr s'"
      by (intro pc_body_total) (auto simp: pc_pre_def intro: in_range_same_size1 in_range_same_size2)
  qed
  then show ?thesis
    by (simp add: for_loop_nested raster_def)
qed

lemma publishPointCloud_Inr:
  "publishPointCloud env st = Inr st' \<Longrightarrow> st' = pc_after env st"
  unfolding publishPointCloud_def pc_after_def Let_def ebind_eq_Inr
  by (auto dest!: pc_loops_Inr split: if_splits)

lemma publishPointCloud_total:
  assumes "pc_pre (depthmap st)"
  shows "publishPointCloud env st = Inr (pc_after env st)"
proof -
  obtain c' where "for_loop [0..<rows (getDepthmap (depthmap st))] (\<lambda>y.
             for_loop [0..<cols (getDepthmap (depthmap st))]
               (\<lambda>x. pc_body env (depthmap st) y x)) (pc st) = Inr c'"
    using pc_loops_total [OF assms] by blast
  then have "\<exists>st'. publishPointCloud env st = Inr st'"
    by (simp add: publishPointCloud_def Let_def)
  then show ?thesis
    using publishPointCloud_Inr by blast
qed

lemma pc_rgb_loops_Inr:
  assumes "for_loop [0..<rows (getDepthmap dm)] (\<lambda>y.
             for_loop [0..<cols (getDepthmap dm)] (\<lambda>x. pc_rgb_body env dm y x)) cloud = Inr c'"
  shows "c' = cloud\<lparr>points := points cloud @ pc_rgb_appended env dm\<rparr>"
proof -
  have "for_loop (raster (rows (getDepthmap dm)) (cols (getDepthmap dm)))
          (\<lambda>p. pc_rgb_body env dm (fst p) (snd p)) cloud = Inr c'"
    using assms by (simp add: for_loop_nested raster_def)
  then show ?thesis
    unfolding pc_rgb_appended_def masked_pixels_def
    by (rule for_loop_push_back [rotated]) (auto dest: pc_rgb_body_Inr)
qed

lemma pc_rgb_loops_total:
  assumes "pc_rgb_pre dm"
  shows "\<exists>c'. for_loop [0..<rows (getDepthmap dm)] (\<lambda>y.
             for_loop [0..<cols (getDepthmap dm)] (\<lambda>x. pc_rgb_body env dm y x)) cloud = Inr c'"
proof -
  have "\<exists>c'. for_loop (raster (rows (getDepthmap dm)) (cols (getDepthmap dm)))
          (\<lambda>p. pc_rgb_body env dm (fst p) (snd p)) cloud = Inr c'"
  proof (rule for_loop_total)
    fix p :: "nat \<times> nat" and s :: "PointTypeRGB PointCloud"
    assume "p \<in> set (raster (rows (getDepthmap dm)) (cols (getDepthmap dm)))"
    then have "fst p < rows (getDepthmap dm)" "snd p < cols (getDepthmap dm)"
      by (simp_all add: set_raster)
    with assms show "\<exists>s'. pc_rgb_body env dm (fst p) (snd p) s = Inr s'"
      by (intro pc_rgb_body_total)
        (auto simp: pc_rgb_pre_def intro: in_range_same_size1 in_range_same_size2)
  qed
  then show ?thesis
    by (simp add: for_loop_nested raster_def)
qed

lemma publishPointCloudRGB_Inr:
  "publishPointCloudRGB env st = Inr st' \<Longrightarrow> st' = pc_rgb_after env st"
  unfolding publishPointCloudRGB_def pc_rgb_after_def Let_def ebind_eq_Inr
  by (auto dest!: pc_rgb_loops_Inr split: if_splits)

lemma publishPointCloudRGB_total:
  assumes "pc_rgb_pre (depthmap st)"
  shows "publishPointCloudRGB env st = Inr (pc_rgb_after env st)"
proof -
  obtain c' where "for_loop [0..<rows (getDepthmap (depthmap st))] (\<lambda>y.
             for_loop [0..<cols (getDepthmap (depthmap st))]
               (\<lambda>x. pc_rgb_body env (depthmap st) y x)) (pc_rgb st) = Inr c'"
    using pc_rgb_loops_total [OF assms] by blast
  then have "\<exists>st'. publishPointCloudRGB env st = Inr st'"
    by (simp add: publishPointCloudRGB_def Let_def)
  then show ?thesis
    using publishPointCloudRGB_Inr by blast
qed

lemma length_filter_raster:
  assumes "length xs = h * w"
  shows "length (filter (\<lambda>p. P (xs ! (fst p * w + snd p))) (raster h w))
         = length (filter P xs)"
proof -
  have "xs = map (\<lambda>i. xs ! i) [0..<h * w]"
    by (simp only: assms [symmetric] map_nth)
  also have "\<dots> = map (\<lambda>p. xs ! (fst p * w + snd p)) (raster h w)"
    by (simp add: raster_index [symmetric] comp_def del: raster_index)
  finally have "filter P xs = filter P (map (\<lambda>p. xs ! (fst p * w + snd p)) (raster h w))"
    by simp
  then show ?thesis
    by (simp add: filter_map comp_def)
qed

lemma length_converged_pixels:
  assumes "same_size (getDepthmap dm) (getConvergenceMap dm)"
  shows "length (converged_pixels env dm)
         = count_list (data (getConvergenceMap dm)) (CONVERGED env)"
proof -
  let ?c = "getConvergenceMap dm"
  let ?P = "(=) (CONVERGED env)"
  have dims: "rows (getDepthmap dm) = rows ?c" "cols (getDepthmap dm) = cols ?c"
    and wf: "wf_Mat ?c"
    using assms by (simp_all add: same_size_def)
  have "converged_pixels env dm
        = filter (\<lambda>p. ?P (data ?c ! (fst p * cols ?c + snd p))) (raster (rows ?c) (cols ?c))"
    unfolding converged_pixels_def dims
    by (rule filter_cong [OF refl])
      (auto simp: set_raster at_eq_Inr elem_def in_range_wf [OF wf])
  moreover have "length (data ?c) = rows ?c * cols ?c"
    using wf by (simp add: wf_Mat_def)
  ultimately show ?thesis
    by (simp only: length_filter_raster count_list_eq_length_filter)
qed

lemma length_masked_pixels:
  assumes "same_size (getDepthmap dm) (getConvergenceMap dm)"
    and "same_size (getDepthmap dm) (getReferenceMask dm)"
  shows "length (masked_pixels env dm)
         = length (filter (\<lambda>cm. fst cm = CONVERGED env \<and> snd cm = 1)
             (zip (data (getConvergenceMap dm)) (data (getReferenceMask dm))))"
proof -
  let ?c = "getConvergenceMap dm" and ?m = "getReferenceMask dm"
  let ?zs = "zip (data ?c) (data ?m)"
  let ?P = "\<lambda>cm. fst cm = CONVERGED env \<and> snd cm = (1::uchar)"
  have dims: "rows (getDepthmap dm) = rows ?c" "cols (getDepthmap dm) = cols ?c"
    "rows ?m = rows ?c" "cols ?m = cols ?c"
    and wf: "wf_Mat ?c" "wf_Mat ?m"
    using assms by (simp_all add: same_size_def)
  have len: "length (data ?c) = rows ?c * cols ?c" "length (data ?m) = rows ?c * cols ?c"
    using wf dims by (simp_all add: wf_Mat_def)
  have "masked_pixels env dm
        = filter (\<lambda>p. ?P (?zs ! (fst p * cols ?c + snd p))) (raster (rows ?c) (cols ?c))"
    unfolding masked_pixels_def dims
  proof (rule filter_cong [OF refl])
    fix p assume "p \<in> set (raster (rows ?c) (cols ?c))"
    then have p: "fst p < rows ?c" "snd p < cols ?c"
      by (simp_all add: set_raster)
    then have "fst p * cols ?c + snd p < rows ?c * cols ?c"
      by (rule raster_bound)
    moreover have "in_range ?c (fst p) (snd p)" "in_range ?m (fst p) (snd p)"
      using p wf dims by (simp_all add: in_range_wf)
    ultimately show "(at ?c (fst p) (snd p) = Inr (CONVERGED env)
                      \<and> at ?m (fst p) (snd p) = Inr 1)
                     = ?P (?zs ! (fst p * cols ?c + snd p))"
      using len dims by (auto simp: at_eq_Inr elem_def)
  qed
  moreover have "length ?zs = rows ?c * cols ?c"
    using len by simp
  ultimately show ?thesis
    using length_filter_raster [of ?zs "rows ?c" "cols ?c" ?P] by simp
qed

lemma for_loop_indep:
  assumes "\<And>i s s' t. i \<in> set is \<Longrightarrow> body i s = Inr s' \<Longrightarrow> \<exists>t'. body i t = Inr t'"
    and "for_loop is body s = Inr s'"
  shows "\<exists>t'. for_loop is body t = Inr t'"
  using assms
proof (induction "is" arbitrary: s t)
  case Nil
  show ?case by simp
next
  case (Cons j js)
  from Cons.prems(2) obtain s1 where b: "body j s = Inr s1" and r: "for_loop js body s1 = Inr s'"
    by (auto split: sum.splits)
  obtain t1 where t1: "body j t = Inr t1"
    using Cons.prems(1) [of j s s1 t] b by auto
  have "\<exists>t'. for_loop js body t1 = Inr t'"
    by (rule Cons.IH [OF _ r]) (auto intro: Cons.prems(1))
  with t1 show ?case by simp
qed

lemma paint_gray3: "paint env s (gray3 g) = tint env s g"
  by (simp add: paint_def tint_def gray3_def)

lemma conv_body_eq:
  assumes "in_range convergence y x" "in_range col y x" "cols convergence = cols col"
  shows "conv_body env convergence y x col
         = Inr (col\<lparr>data := (data col)[y * cols col + x :=
                  paint env (data convergence ! (y * cols col + x))
                    (data col ! (y * cols col + x))]\<rparr>)"
  using assms
  by (simp add: conv_body_def at_def at_put_def paint_def)

lemma conv_loop_aux:
  assumes "distinct (map (\<lambda>p. fst p * w + snd p) ps)"
    and "\<And>p. p \<in> set ps \<Longrightarrow> in_range convergence (fst p) (snd p) \<and> in_range col (fst p) (snd p)"
    and "cols convergence = w" "cols col = w"
  shows "for_loop ps (\<lambda>p. conv_body env convergence (fst p) (snd p)) col
         = Inr (col\<lparr>data := map (\<lambda>i. if i \<in> (\<lambda>p. fst p * w + snd p) ` set ps
                                      then paint env (data convergence ! i) (data col ! i)
                                      else data col ! i)
                                [0..<length (data col)]\<rparr>)"
  using assms
proof (induction ps arbitrary: col)
  case Nil
  have "map (\<lambda>i. data col ! i) [0..<length (data col)] = data col"
    by (rule map_nth)
  then show ?case by simp
next
  case (Cons p ps)
  let ?idx = "\<lambda>p. fst p * w + snd p"
  let ?i0 = "?idx p"
  let ?col1 = "col\<lparr>data := (data col)[?i0 :=
                  paint env (data convergence ! ?i0) (data col ! ?i0)]\<rparr>"
  have body: "conv_body env convergence (fst p) (snd p) col = Inr ?col1"
    using conv_body_eq [of convergence "fst p" "snd p" col env] Cons.prems by simp
  have fresh: "?i0 \<notin> ?idx ` set ps" and dist: "distinct (map ?idx ps)"
    using Cons.prems(1) by auto
  have rng: "\<And>q. q \<in> set ps \<Longrightarrow> in_range convergence (fst q) (snd q) \<and> in_range ?col1 (fst q) (snd q)"
    using Cons.prems(2) by (simp add: in_range_def)
  have i0: "?i0 < length (data col)"
    using Cons.prems(2) [of p] Cons.prems(4) by (simp add: in_range_def)
  have "for_loop ps (\<lambda>p. conv_body env convergence (fst p) (snd p)) ?col1
        = Inr (?col1\<lparr>data := map (\<lambda>i. if i \<in> ?idx ` set ps
                                      then paint env (data convergence ! i) (data ?col1 ! i)
                                      else data ?col1 ! i)
                                [0..<length (data ?col1)]\<rparr>)"
    using dist rng Cons.prems(3,4) by (intro Cons.IH) simp_all
  also have "map (\<lambda>i. if i \<in> ?idx ` set ps
                       then paint env (data convergence ! i) (data ?col1 ! i)
                       else data ?col1 ! i) [0..<length (data ?col1)]
             = map (\<lambda>i. if i \<in> ?idx ` set (p # ps)
                       then paint env (data convergence ! i) (data col ! i)
                       else data col ! i) [0..<length (data col)]"
    using fresh i0 by (auto simp: nth_list_update)
  finally show ?case
    using body by simp
qed

lemma idx_image_raster: "(\<lambda>p. fst p * w + snd p) ` set (raster h w) = {0..<h * w}"
proof -
  have "set (map (\<lambda>p. fst p * w + snd p) (raster h w)) = set [0..<h * w]"
    by (simp only: raster_index)
  then show ?thesis by simp
qed

lemma conv_loops:
  assumes "same_size ref_img convergence"
  shows "for_loop [0..<rows (cvtColor_GRAY2BGR ref_img)] (\<lambda>r.
           for_loop [0..<cols (cvtColor_GRAY2BGR ref_img)] (\<lambda>c. conv_body env convergence r c))
           (cvtColor_GRAY2BGR ref_img)
         = Inr (render env convergence ref_img)"
proof -
  let ?col0 = "cvtColor_GRAY2BGR ref_img"
  let ?h = "rows ref_img" and ?w = "cols ref_img"
  have dims: "rows convergence = ?h" "cols convergence = ?w"
    and len: "length (data ref_img) = ?h * ?w" "length (data convergence) = ?h * ?w"
    using assms by (simp_all add: same_size_def wf_Mat_def)
  have col0: "rows ?col0 = ?h" "cols ?col0 = ?w" "length (data ?col0) = ?h * ?w"
    using len by (simp_all add: cvtColor_GRAY2BGR_def)
  have "for_loop (raster ?h ?w) (\<lambda>p. conv_body env convergence (fst p) (snd p)) ?col0
        = Inr (?col0\<lparr>data := map (\<lambda>i. if i \<in> (\<lambda>p. fst p * ?w + snd p) ` set (raster ?h ?w)
                                      then paint env (data convergence ! i) (data ?col0 ! i)
                                      else data ?col0 ! i)
                                [0..<length (data ?col0)]\<rparr>)"
  proof (rule conv_loop_aux)
    show "distinct (map (\<lambda>p. fst p * ?w + snd p) (raster ?h ?w))"
      by (simp only: raster_index distinct_upt)
    show "cols convergence = ?w" "cols ?col0 = ?w"
      by (simp_all add: dims col0)
    fix p assume "p \<in> set (raster ?h ?w)"
    then have "fst p < ?h" "snd p < ?w"
      by (simp_all add: set_raster)
    then show "in_range convergence (fst p) (snd p) \<and> in_range ?col0 (fst p) (snd p)"
      using dims len col0 by (simp add: in_range_def raster_bound)
  qed
  also have "map (\<lambda>i. if i \<in> (\<lambda>p. fst p * ?w + snd p) ` set (raster ?h ?w)
                       then paint env (data convergence ! i) (data ?col0 ! i)
                       else data ?col0 ! i) [0..<length (data ?col0)]
             = map (\<lambda>i. tint env (data convergence ! i) (data ref_img ! i))
                 [0..<length (data ref_img)]"
    using len col0
    by (auto simp: idx_image_raster cvtColor_GRAY2BGR_def paint_gray3 [unfolded gray3_def])
  finally show ?thesis
    by (simp add: for_loop_nested raster_def [symmetric] col0 render_def cvtColor_GRAY2BGR_def)
qed

lemma publishConvergenceMap_total:
  assumes "conv_pre (depthmap st)"
  shows "publishConvergenceMap env st = Inr (conv_after env st)"
  using assms
  by (simp add: publishConvergenceMap_def conv_after_def conv_pre_def Let_def conv_loops)

lemma at_render:
  assumes "same_size ref_img convergence" "y < rows ref_img" "x < cols ref_img"
  shows "at (render env convergence ref_img) y x
         = Inr (tint env (elem convergence y x) (elem ref_img y x))"
proof -
  have "y * cols ref_img + x < rows ref_img * cols ref_img"
    using assms(2,3) by (rule raster_bound)
  then show ?thesis
    using assms by (simp add: at_def in_range_def render_def elem_def same_size_def wf_Mat_def)
qed

section \<open>Colour packing round trip\<close>

lemma pack_rgb_low: "ucast (pack_rgb v) = ch0 v"
  unfolding pack_rgb_def
  by (rule bit_word_eqI) (auto simp: bit_simps dest: bit_imp_le_length)

lemma pack_rgb_mid: "ucast (drop_bit 8 (pack_rgb v)) = ch1 v"
  unfolding pack_rgb_def
  by (rule bit_word_eqI) (auto simp: bit_simps dest: bit_imp_le_length)

lemma pack_rgb_high: "ucast (drop_bit 16 (pack_rgb v)) = ch2 v"
  unfolding pack_rgb_def
  by (rule bit_word_eqI) (auto simp: bit_simps dest: bit_imp_le_length)

lemma pack_rgb_top: "drop_bit 24 (pack_rgb v) = 0"
  unfolding pack_rgb_def
  by (rule bit_word_eqI) (auto simp: bit_simps dest: bit_imp_le_length)

section \<open>The uncolored projection\<close>

lemma set_converged_pixels:
  "p \<in> set (converged_pixels env dm) \<longleftrightarrow>
     fst p < rows (getDepthmap dm) \<and> snd p < cols (getDepthmap dm)
     \<and> at (getConvergenceMap dm) (fst p) (snd p) = Inr (CONVERGED env)"
  by (auto simp: converged_pixels_def set_raster)

lemma sorted_converged_pixels: "sorted_wrt raster_less (converged_pixels env dm)"
  unfolding converged_pixels_def by (rule sorted_wrt_filter) (rule sorted_raster)

text \<open>
  C2, as the code has it. On a snapshot whose depth map, convergence map and gray
  reference image have the same dimensions, \<open>publishPointCloud\<close> returns, and the points it
  appends to \<open>pc_\<close>, after the points that earlier calls left there, are the points of the
  CONVERGED pixels and of no other pixel, in raster-scan order; their number is the number
  of entries of the convergence map that are CONVERGED, so the cloud has that many points
  when it was empty before the call.
\<close>

theorem publishPointCloud_converged:
  assumes "pc_pre (depthmap st)"
  shows "\<exists>st'. publishPointCloud env st = Inr st'
     \<and> points (pc st') = points (pc st)
          @ map (pc_point env (depthmap st)) (converged_pixels env (depthmap st))
     \<and> length (points (pc st')) = length (points (pc st))
          + count_list (data (getConvergenceMap (depthmap st))) (CONVERGED env)
     \<and> length (converged_pixels env (depthmap st))
          = count_list (data (getConvergenceMap (depthmap st))) (CONVERGED env)
     \<and> (\<forall>p \<in> set (converged_pixels env (depthmap st)).
           at (getConvergenceMap (depthmap st)) (fst p) (snd p) = Inr (CONVERGED env))
     \<and> sorted_wrt raster_less (converged_pixels env (depthmap st))"
proof -
  have len: "length (converged_pixels env (depthmap st))
             = count_list (data (getConvergenceMap (depthmap st))) (CONVERGED env)"
    using assms by (simp add: pc_pre_def length_converged_pixels)
  have pts: "points (pc (pc_after env st)) = points (pc st)
          @ map (pc_point env (depthmap st)) (converged_pixels env (depthmap st))"
    by (simp add: pc_after_def pc_appended_def Let_def)
  show ?thesis
    using publishPointCloud_total [OF assms, of env] len pts
    by (simp add: set_converged_pixels sorted_converged_pixels)
qed

lemma sample_pc_pre: "pc_pre (depthmap sample_st)"
  by (simp add: sample_st_def Publisher_new_def sample_dm_def pc_pre_def same_size_def
      wf_Mat_def grid2_def)

section \<open>The colored projection\<close>

lemma set_masked_pixels:
  "p \<in> set (masked_pixels env dm) \<longleftrightarrow>
     fst p < rows (getDepthmap dm) \<and> snd p < cols (getDepthmap dm)
     \<and> at (getConvergenceMap dm) (fst p) (snd p) = Inr (CONVERGED env)
     \<and> at (getReferenceMask dm) (fst p) (snd p) = Inr 1"
  by (auto simp: masked_pixels_def set_raster)

lemma sorted_masked_pixels: "sorted_wrt raster_less (masked_pixels env dm)"
  unfolding masked_pixels_def by (rule sorted_wrt_filter) (rule sorted_raster)

lemma points_pc_rgb_after:
  "points (pc_rgb (pc_rgb_after env st)) = points (pc_rgb st)
     @ map (pc_rgb_point env (depthmap st)) (masked_pixels env (depthmap st))"
  by (simp add: pc_rgb_after_def pc_rgb_appended_def Let_def)

lemma points_pc_after:
  "points (pc (pc_after env st)) = points (pc st)
     @ map (pc_point env (depthmap st)) (converged_pixels env (depthmap st))"
  by (simp add: pc_after_def pc_appended_def Let_def)

lemma sample_pc_rgb_pre: "pc_rgb_pre (depthmap sample_st)"
  by (simp add: sample_st_def Publisher_new_def sample_dm_def pc_rgb_pre_def same_size_def
      wf_Mat_def grid2_def)

text \<open>
  C9. The colored projector admits a pixel only when its mask value is exactly 1: a pixel
  whose mask value is anything else (255, say) is not among the pixels whose points the
  call appends, even when it is CONVERGED; every pixel that contributes a point has mask
  value 1.
\<close>

theorem publishPointCloudRGB_mask_exactly_1:
  assumes "pc_rgb_pre (depthmap st)"
    and "at (getReferenceMask (depthmap st)) y x = Inr m" and "m \<noteq> 1"
  shows "\<exists>st'. publishPointCloudRGB env st = Inr st'
     \<and> points (pc_rgb st') = points (pc_rgb st)
          @ map (pc_rgb_point env (depthmap st)) (masked_pixels env (depthmap st))
     \<and> (y, x) \<notin> set (masked_pixels env (depthmap st))
     \<and> (\<forall>p \<in> set (masked_pixels env (depthmap st)).
           at (getReferenceMask (depthmap st)) (fst p) (snd p) = Inr 1)"
  using publishPointCloudRGB_total [OF assms(1), of env] points_pc_rgb_after [of env st] assms(2,3)
  by (simp add: set_masked_pixels)

theorem publishPointCloudRGB_mask_exactly_1_witness:
  "pc_rgb_pre (depthmap sample_st)
   \<and> at (getReferenceMask (depthmap sample_st)) 1 1 = Inr 255 \<and> (255 :: uchar) \<noteq> 1
   \<and> at (getConvergenceMap (depthmap sample_st)) 1 1 = Inr (CONVERGED sample_rmd)
   \<and> (\<exists>st'. publishPointCloudRGB sample_rmd sample_st = Inr st'
         \<and> (1, 1) \<notin> set (masked_pixels sample_rmd (depthmap sample_st)))"
proof -
  have m: "at (getReferenceMask (depthmap sample_st)) 1 1 = Inr 255"
    and c: "at (getConvergenceMap (depthmap sample_st)) 1 1 = Inr (CONVERGED sample_rmd)"
    by (simp_all add: sample_st_def Publisher_new_def sample_dm_def grid2_def at_def
        in_range_def sample_rmd_def)
  have n: "(255 :: uchar) \<noteq> 1" by simp
  show ?thesis
    using publishPointCloudRGB_mask_exactly_1 [OF sample_pc_rgb_pre m n, of sample_rmd]
      sample_pc_rgb_pre m c n
    by blast
qed

section \<open>Pixels that fail the gate\<close>

lemma back_project_same_gates:
  "same_gates a b \<Longrightarrow> back_project env a y x d = back_project env b y x d"
  by (simp add: same_gates_def back_project_def)

lemma elem_of_at:
  "at a y x = at b y x \<Longrightarrow> in_range a y x \<Longrightarrow> elem a y x = elem b y x"
  by (auto simp: at_def elem_def split: if_splits)

lemma converged_pixels_same_gates:
  assumes "same_gates a b" "pc_pre a \<or> pc_rgb_pre a" "pc_pre b \<or> pc_rgb_pre b"
  shows "converged_pixels env a = converged_pixels env b"
proof -
  have "rows (getDepthmap a) = rows (getConvergenceMap a)"
    "cols (getDepthmap a) = cols (getConvergenceMap a)"
    "rows (getDepthmap b) = rows (getConvergenceMap b)"
    "cols (getDepthmap b) = cols (getConvergenceMap b)"
    using assms(2,3) by (auto simp: pc_pre_def pc_rgb_pre_def same_size_def)
  then show ?thesis
    using assms(1) by (simp add: converged_pixels_def same_gates_def)
qed

lemma masked_pixels_same_gates:
  assumes "same_gates a b" "pc_rgb_pre a" "pc_rgb_pre b"
  shows "masked_pixels env a = masked_pixels env b"
proof -
  have "rows (getDepthmap a) = rows (getConvergenceMap a)"
    "cols (getDepthmap a) = cols (getConvergenceMap a)"
    "rows (getDepthmap b) = rows (getConvergenceMap b)"
    "cols (getDepthmap b) = cols (getConvergenceMap b)"
    using assms(2,3) by (auto simp: pc_rgb_pre_def same_size_def)
  then show ?thesis
    using assms(1) by (simp add: masked_pixels_def same_gates_def)
qed

lemma pc_appended_agree:
  assumes gates: "same_gates a b" and pre: "pc_pre a" "pc_pre b"
    and depth: "agree_on (converged_pixels env a) (getDepthmap a) (getDepthmap b)"
    and gray: "agree_on (converged_pixels env a) (getReferenceImage a) (getReferenceImage b)"
  shows "pc_appended env a = pc_appended env b"
proof -
  have "pc_point env a p = pc_point env b p" if p: "p \<in> set (converged_pixels env a)" for p
  proof -
    have rng: "fst p < rows (getDepthmap a)" "snd p < cols (getDepthmap a)"
      using p by (simp_all add: set_converged_pixels)
    have "in_range (getDepthmap a) (fst p) (snd p)"
      "in_range (getReferenceImage a) (fst p) (snd p)"
      using pre(1) rng by (auto simp: pc_pre_def intro: in_range_same_size1 in_range_same_size2)
    moreover have "at (getDepthmap a) (fst p) (snd p) = at (getDepthmap b) (fst p) (snd p)"
      "at (getReferenceImage a) (fst p) (snd p) = at (getReferenceImage b) (fst p) (snd p)"
      using depth gray p by (simp_all add: agree_on_def)
    ultimately have "elem (getDepthmap a) (fst p) (snd p) = elem (getDepthmap b) (fst p) (snd p)"
      "elem (getReferenceImage a) (fst p) (snd p) = elem (getReferenceImage b) (fst p) (snd p)"
      by (simp_all add: elem_of_at)
    then show ?thesis
      by (simp add: pc_point_def back_project_same_gates [OF gates])
  qed
  then have "map (pc_point env a) (converged_pixels env a)
             = map (pc_point env b) (converged_pixels env a)"
    by simp
  then show ?thesis
    using converged_pixels_same_gates [OF gates, of env] pre by (simp add: pc_appended_def)
qed

lemma pc_rgb_appended_agree:
  assumes gates: "same_gates a b" and pre: "pc_rgb_pre a" "pc_rgb_pre b"
    and depth: "agree_on (masked_pixels env a) (getDepthmap a) (getDepthmap b)"
    and colour: "agree_on (masked_pixels env a) (getReferenceImageRGB a) (getReferenceImageRGB b)"
  shows "pc_rgb_appended env a = pc_rgb_appended env b"
proof -
  have "pc_rgb_point env a p = pc_rgb_point env b p" if p: "p \<in> set (masked_pixels env a)" for p
  proof -
    have rng: "fst p < rows (getDepthmap a)" "snd p < cols (getDepthmap a)"
      using p by (simp_all add: set_masked_pixels)
    have "in_range (getDepthmap a) (fst p) (snd p)"
      "in_range (getReferenceImageRGB a) (fst p) (snd p)"
      using pre(1) rng
      by (auto simp: pc_rgb_pre_def intro: in_range_same_size1 in_range_same_size2)
    moreover have "at (getDepthmap a) (fst p) (snd p) = at (getDepthmap b) (fst p) (snd p)"
      "at (getReferenceImageRGB a) (fst p) (snd p) = at (getReferenceImageRGB b) (fst p) (snd p)"
      using depth colour p by (simp_all add: agree_on_def)
    ultimately have "elem (getDepthmap a) (fst p) (snd p) = elem (getDepthmap b) (fst p) (snd p)"
      "elem (getReferenceImageRGB a) (fst p) (snd p)
       = elem (getReferenceImageRGB b) (fst p) (snd p)"
      by (simp_all add: elem_of_at)
    then show ?thesis
      by (simp add: pc_rgb_point_def back_project_same_gates [OF gates])
  qed
  then have "map (pc_rgb_point env a) (masked_pixels env a)
             = map (pc_rgb_point env b) (masked_pixels env a)"
    by simp
  then show ?thesis
    using masked_pixels_same_gates [OF gates pre, of env] by (simp add: pc_rgb_appended_def)
qed

text \<open>
  C10. For both projectors the appended points, the resulting cloud and the published
  messages do not depend on the depth, gray or colour values at pixels that fail the gate:
  two snapshots with the same convergence map, mask, pose and intrinsics that agree on
  depth and reference values at the gate-passing pixels give the same result from the same
  publisher state, whatever they hold at the other pixels.
\<close>

theorem projection_independent_of_gated_out_pixels:
  assumes "same_gates a b"
  shows "(pc_pre a \<and> pc_pre b
          \<and> agree_on (converged_pixels env a) (getDepthmap a) (getDepthmap b)
          \<and> agree_on (converged_pixels env a) (getReferenceImage a) (getReferenceImage b)
          \<longrightarrow> (\<exists>s t. publishPointCloud env (st\<lparr>depthmap := a\<rparr>) = Inr s
                \<and> publishPointCloud env (st\<lparr>depthmap := b\<rparr>) = Inr t
                \<and> pc s = pc t \<and> published s = published t))
       \<and> (pc_rgb_pre a \<and> pc_rgb_pre b
          \<and> agree_on (masked_pixels env a) (getDepthmap a) (getDepthmap b)
          \<and> agree_on (masked_pixels env a) (getReferenceImageRGB a) (getReferenceImageRGB b)
          \<longrightarrow> (\<exists>s t. publishPointCloudRGB env (st\<lparr>depthmap := a\<rparr>) = Inr s
                \<and> publishPointCloudRGB env (st\<lparr>depthmap := b\<rparr>) = Inr t
                \<and> pc_rgb s = pc_rgb t \<and> published s = published t))"
proof (intro conjI impI)
  assume h: "pc_pre a \<and> pc_pre b
          \<and> agree_on (converged_pixels env a) (getDepthmap a) (getDepthmap b)
          \<and> agree_on (converged_pixels env a) (getReferenceImage a) (getReferenceImage b)"
  then have eq: "pc_appended env a = pc_appended env b"
    using pc_appended_agree [OF assms] by blast
  have "publishPointCloud env (st\<lparr>depthmap := a\<rparr>) = Inr (pc_after env (st\<lparr>depthmap := a\<rparr>))"
    "publishPointCloud env (st\<lparr>depthmap := b\<rparr>) = Inr (pc_after env (st\<lparr>depthmap := b\<rparr>))"
    using h by (simp_all add: publishPointCloud_total)
  moreover have "pc (pc_after env (st\<lparr>depthmap := a\<rparr>)) = pc (pc_after env (st\<lparr>depthmap := b\<rparr>))"
    "published (pc_after env (st\<lparr>depthmap := a\<rparr>))
     = published (pc_after env (st\<lparr>depthmap := b\<rparr>))"
    using eq by (simp_all add: pc_after_def Let_def)
  ultimately show "\<exists>s t. publishPointCloud env (st\<lparr>depthmap := a\<rparr>) = Inr s
                \<and> publishPointCloud env (st\<lparr>depthmap := b\<rparr>) = Inr t
                \<and> pc s = pc t \<and> published s = published t"
    by blast
next
  assume h: "pc_rgb_pre a \<and> pc_rgb_pre b
          \<and> agree_on (masked_pixels env a) (getDepthmap a) (getDepthmap b)
          \<and> agree_on (masked_pixels env a) (getReferenceImageRGB a) (getReferenceImageRGB b)"
  then have eq: "pc_rgb_appended env a = pc_rgb_appended env b"
    using pc_rgb_appended_agree [OF assms] by blast
  have "publishPointCloudRGB env (st\<lparr>depthmap := a\<rparr>)
        = Inr (pc_rgb_after env (st\<lparr>depthmap := a\<rparr>))"
    "publishPointCloudRGB env (st\<lparr>depthmap := b\<rparr>)
     = Inr (pc_rgb_after env (st\<lparr>depthmap := b\<rparr>))"
    using h by (simp_all add: publishPointCloudRGB_total)
  moreover have "pc_rgb (pc_rgb_after env (st\<lparr>depthmap := a\<rparr>))
                 = pc_rgb (pc_rgb_after env (st\<lparr>depthmap := b\<rparr>))"
    "published (pc_rgb_after env (st\<lparr>depthmap := a\<rparr>))
     = published (pc_rgb_after env (st\<lparr>depthmap := b\<rparr>))"
    using eq by (simp_all add: pc_rgb_after_def Let_def)
  ultimately show "\<exists>s t. publishPointCloudRGB env (st\<lparr>depthmap := a\<rparr>) = Inr s
                \<and> publishPointCloudRGB env (st\<lparr>depthmap := b\<rparr>) = Inr t
                \<and> pc_rgb s = pc_rgb t \<and> published s = published t"
    by blast
qed

lemma raster_2_2: "raster 2 2 = [(0,0), (0,1), (1,0), (1,1)]"
  by code_simp

lemma sample_converged_pixels: "converged_pixels sample_rmd sample_dm = [(0,0), (1,1)]"
  by (simp add: converged_pixels_def sample_dm_def grid2_def raster_2_2 at_def in_range_def
      sample_rmd_def)

lemma sample_masked_pixels: "masked_pixels sample_rmd sample_dm = [(0,0)]"
  by (simp add: masked_pixels_def sample_dm_def grid2_def raster_2_2 at_def in_range_def
      sample_rmd_def)

lemma sample_dm_pre: "pc_pre sample_dm" "pc_rgb_pre sample_dm" "conv_pre sample_dm"
  by (simp_all add: sample_dm_def pc_pre_def pc_rgb_pre_def conv_pre_def same_size_def
      wf_Mat_def grid2_def)

lemma sample_dm2_pre: "pc_pre sample_dm2" "pc_rgb_pre sample_dm2"
  by (simp_all add: sample_dm2_def sample_dm_def pc_pre_def pc_rgb_pre_def same_size_def
      wf_Mat_def grid2_def)

lemma sample_same_gates: "same_gates sample_dm sample_dm2"
  by (simp add: same_gates_def sample_dm2_def)

lemma sample_agree:
  "agree_on (converged_pixels sample_rmd sample_dm) (getDepthmap sample_dm) (getDepthmap sample_dm2)"
  "agree_on (converged_pixels sample_rmd sample_dm) (getReferenceImage sample_dm)
     (getReferenceImage sample_dm2)"
  "agree_on (masked_pixels sample_rmd sample_dm) (getDepthmap sample_dm) (getDepthmap sample_dm2)"
  "agree_on (masked_pixels sample_rmd sample_dm) (getReferenceImageRGB sample_dm)
     (getReferenceImageRGB sample_dm2)"
  unfolding agree_on_def sample_converged_pixels sample_masked_pixels
  by (simp_all add: sample_dm2_def sample_dm_def grid2_def at_def in_range_def)

lemma sample_differ:
  "at (getDepthmap sample_dm) 0 1 \<noteq> at (getDepthmap sample_dm2) 0 1"
  "at (getReferenceImage sample_dm) 0 1 \<noteq> at (getReferenceImage sample_dm2) 0 1"
  "at (getReferenceImageRGB sample_dm) 1 1 \<noteq> at (getReferenceImageRGB sample_dm2) 1 1"
  by (simp_all add: sample_dm2_def sample_dm_def grid2_def at_def in_range_def gray3_def)

theorem projection_independent_of_gated_out_pixels_witness:
  "same_gates sample_dm sample_dm2
   \<and> pc_pre sample_dm \<and> pc_pre sample_dm2
   \<and> agree_on (converged_pixels sample_rmd sample_dm) (getDepthmap sample_dm) (getDepthmap sample_dm2)
   \<and> agree_on (converged_pixels sample_rmd sample_dm) (getReferenceImage sample_dm)
        (getReferenceImage sample_dm2)
   \<and> at (getDepthmap sample_dm) 0 1 \<noteq> at (getDepthmap sample_dm2) 0 1
   \<and> at (getReferenceImage sample_dm) 0 1 \<noteq> at (getReferenceImage sample_dm2) 0 1
   \<and> (\<exists>s t. publishPointCloud sample_rmd (sample_st\<lparr>depthmap := sample_dm\<rparr>) = Inr s
         \<and> publishPointCloud sample_rmd (sample_st\<lparr>depthmap := sample_dm2\<rparr>) = Inr t
         \<and> pc s = pc t \<and> published s = published t)
   \<and> pc_rgb_pre sample_dm \<and> pc_rgb_pre sample_dm2
   \<and> agree_on (masked_pixels sample_rmd sample_dm) (getDepthmap sample_dm) (getDepthmap sample_dm2)
   \<and> agree_on (masked_pixels sample_rmd sample_dm) (getReferenceImageRGB sample_dm)
        (getReferenceImageRGB sample_dm2)
   \<and> at (getReferenceImageRGB sample_dm) 1 1 \<noteq> at (getReferenceImageRGB sample_dm2) 1 1
   \<and> (\<exists>s t. publishPointCloudRGB sample_rmd (sample_st\<lparr>depthmap := sample_dm\<rparr>) = Inr s
         \<and> publishPointCloudRGB sample_rmd (sample_st\<lparr>depthmap := sample_dm2\<rparr>) = Inr t
         \<and> pc_rgb s = pc_rgb t \<and> published s = published t)"
  using projection_independent_of_gated_out_pixels
          [OF sample_same_gates, of sample_rmd sample_st]
    sample_same_gates sample_dm_pre sample_dm2_pre sample_agree sample_differ
  by blast

section \<open>The convergence image\<close>

lemma colored_conv_after:
  "colored (conv_after env st)
   = render env (getConvergenceMap (depthmap st)) (getReferenceImage (depthmap st))"
  by (simp add: conv_after_def Let_def)

lemma render_dims:
  "rows (render env convergence ref_img) = rows ref_img"
  "cols (render env convergence ref_img) = cols ref_img"
  by (simp_all add: render_def)

text \<open>
  C5. On a snapshot whose convergence map and gray image have the same dimensions,
  \<open>publishConvergenceMap\<close> returns an image of those dimensions in which a CONVERGED pixel
  has channel 0 equal to 255 whatever its gray value, a DIVERGED pixel has channel 2 equal
  to 255, and a pixel in any other state has the gray value in all three channels. (The
  two enumerators are different values, as the \<open>switch\<close> needs.)
\<close>

theorem publishConvergenceMap_pixels:
  assumes "conv_pre (depthmap st)" and "CONVERGED env \<noteq> DIVERGED env"
  shows "\<exists>st'. publishConvergenceMap env st = Inr st'
     \<and> rows (colored st') = rows (getReferenceImage (depthmap st))
     \<and> cols (colored st') = cols (getReferenceImage (depthmap st))
     \<and> (\<forall>y x. y < rows (getReferenceImage (depthmap st))
            \<and> x < cols (getReferenceImage (depthmap st)) \<longrightarrow>
          (\<exists>v. at (colored st') y x = Inr v
             \<and> (elem (getConvergenceMap (depthmap st)) y x = CONVERGED env \<longrightarrow> ch0 v = 255)
             \<and> (elem (getConvergenceMap (depthmap st)) y x = DIVERGED env \<longrightarrow> ch2 v = 255)
             \<and> (elem (getConvergenceMap (depthmap st)) y x \<noteq> CONVERGED env
                \<and> elem (getConvergenceMap (depthmap st)) y x \<noteq> DIVERGED env \<longrightarrow>
                  ch0 v = elem (getReferenceImage (depthmap st)) y x
                  \<and> ch1 v = elem (getReferenceImage (depthmap st)) y x
                  \<and> ch2 v = elem (getReferenceImage (depthmap st)) y x)))"
proof -
  let ?c = "getConvergenceMap (depthmap st)" and ?r = "getReferenceImage (depthmap st)"
  have size: "same_size ?r ?c"
    using assms(1) by (simp add: conv_pre_def)
  have px: "at (colored (conv_after env st)) y x = Inr (tint env (elem ?c y x) (elem ?r y x))"
    if "y < rows ?r" "x < cols ?r" for y x
    using at_render [OF size that] by (simp add: colored_conv_after)
  show ?thesis
    using publishConvergenceMap_total [OF assms(1), of env] assms(2) px
    by (simp add: colored_conv_after render_dims tint_def gray3_def)
qed

lemma diverged_st_depthmap:
  "depthmap diverged_st = sample_dm\<lparr>getConvergenceMap := grid2 0 0 3 0\<rparr>"
  by (simp add: diverged_st_def Publisher_new_def)

lemma diverged_st_pre:
  "conv_pre (depthmap diverged_st)" "pc_pre (depthmap diverged_st)"
  "pc_rgb_pre (depthmap diverged_st)"
  by (simp_all add: diverged_st_depthmap sample_dm_def conv_pre_def pc_pre_def pc_rgb_pre_def
      same_size_def wf_Mat_def grid2_def)

lemma sample_st_depthmap: "depthmap sample_st = sample_dm"
  by (simp add: sample_st_def Publisher_new_def)

lemma sample_enumerators: "CONVERGED sample_rmd \<noteq> DIVERGED sample_rmd"
  by (simp add: sample_rmd_def)

theorem publishConvergenceMap_pixels_witness:
  "conv_pre (depthmap sample_st) \<and> CONVERGED sample_rmd \<noteq> DIVERGED sample_rmd
   \<and> (0::nat) < rows (getReferenceImage (depthmap sample_st))
   \<and> (0::nat) < cols (getReferenceImage (depthmap sample_st))
   \<and> elem (getConvergenceMap (depthmap sample_st)) 0 0 = CONVERGED sample_rmd
   \<and> (\<exists>st'. publishConvergenceMap sample_rmd sample_st = Inr st'
         \<and> rows (colored st') = 2 \<and> cols (colored st') = 2
         \<and> (\<exists>v. at (colored st') 0 0 = Inr v \<and> ch0 v = 255))"
proof -
  have pre: "conv_pre (depthmap sample_st)"
    by (simp add: sample_st_depthmap sample_dm_pre)
  have facts: "(0::nat) < rows (getReferenceImage (depthmap sample_st))"
    "(0::nat) < cols (getReferenceImage (depthmap sample_st))"
    "elem (getConvergenceMap (depthmap sample_st)) 0 0 = CONVERGED sample_rmd"
    "rows (getReferenceImage (depthmap sample_st)) = 2"
    "cols (getReferenceImage (depthmap sample_st)) = 2"
    by (simp_all add: sample_st_depthmap sample_dm_def grid2_def elem_def sample_rmd_def)
  obtain st' where st': "publishConvergenceMap sample_rmd sample_st = Inr st'"
    "rows (colored st') = rows (getReferenceImage (depthmap sample_st))"
    "cols (colored st') = cols (getReferenceImage (depthmap sample_st))"
    and px: "\<And>y x. y < rows (getReferenceImage (depthmap sample_st))
            \<and> x < cols (getReferenceImage (depthmap sample_st)) \<Longrightarrow>
          (\<exists>v. at (colored st') y x = Inr v
             \<and> (elem (getConvergenceMap (depthmap sample_st)) y x = CONVERGED sample_rmd
                  \<longrightarrow> ch0 v = 255))"
    using publishConvergenceMap_pixels [OF pre sample_enumerators] by blast
  have "\<exists>v. at (colored st') 0 0 = Inr v \<and> ch0 v = 255"
    using px [of 0 0] facts(1-3) by blast
  then show ?thesis
    using pre sample_enumerators facts st' by auto
qed

lemma no_converged_pixels:
  assumes "same_size (getDepthmap dm) (getConvergenceMap dm)"
    and "CONVERGED env \<notin> set (data (getConvergenceMap dm))"
  shows "converged_pixels env dm = []" "masked_pixels env dm = []"
proof -
  have "length (converged_pixels env dm) = 0"
    using assms by (simp add: length_converged_pixels count_list_0_iff)
  then show c: "converged_pixels env dm = []" by simp
  have "set (masked_pixels env dm) \<subseteq> set (converged_pixels env dm)"
    by (auto simp: set_masked_pixels set_converged_pixels)
  with c show "masked_pixels env dm = []" by simp
qed

lemma elem_in_data:
  assumes "wf_Mat m" "y < rows m" "x < cols m"
  shows "elem m y x \<in> set (data m)"
proof -
  have "y * cols m + x < length (data m)"
    using assms by (simp add: wf_Mat_def raster_bound)
  then show ?thesis by (simp add: elem_def)
qed

lemma render_gray:
  assumes "same_size ref_img convergence"
    and "CONVERGED env \<notin> set (data convergence)" "DIVERGED env \<notin> set (data convergence)"
  shows "render env convergence ref_img = cvtColor_GRAY2BGR ref_img"
proof -
  have len: "length (data convergence) = length (data ref_img)"
    using assms(1) by (simp add: same_size_def wf_Mat_def)
  have "tint env (data convergence ! i) g = gray3 g" if "i < length (data ref_img)" for i g
  proof -
    have "data convergence ! i \<in> set (data convergence)"
      using that len by simp
    then show ?thesis
      using assms(2,3) by (auto simp: tint_def)
  qed
  then have "map (\<lambda>i. tint env (data convergence ! i) (data ref_img ! i))
               [0..<length (data ref_img)]
             = map (\<lambda>i. gray3 (data ref_img ! i)) [0..<length (data ref_img)]"
    by (intro map_cong refl) simp
  also have "\<dots> = map gray3 (map (\<lambda>i. data ref_img ! i) [0..<length (data ref_img)])"
    by (simp only: map_map comp_def)
  also have "\<dots> = map gray3 (data ref_img)"
    by (simp only: map_nth)
  finally have "map (\<lambda>i. tint env (data convergence ! i) (data ref_img ! i))
               [0..<length (data ref_img)]
             = map (\<lambda>g. \<lparr>ch0 = g, ch1 = g, ch2 = g\<rparr>) (data ref_img)"
    by (simp add: gray3_def [abs_def])
  then show ?thesis
    by (simp add: render_def cvtColor_GRAY2BGR_def)
qed

lemma diverged_st_facts:
  "CONVERGED sample_rmd \<notin> set (data (getConvergenceMap (depthmap diverged_st)))"
  "points (pc diverged_st) = []" "points (pc_rgb diverged_st) = []"
  "(0::nat) < rows (getReferenceImage (depthmap diverged_st))"
  "(0::nat) < cols (getReferenceImage (depthmap diverged_st))"
  "(1::nat) < rows (getReferenceImage (depthmap diverged_st))"
  "elem (getConvergenceMap (depthmap diverged_st)) 0 0 \<noteq> DIVERGED sample_rmd"
  "elem (getConvergenceMap (depthmap diverged_st)) 1 0 = DIVERGED sample_rmd"
  "elem (getReferenceImage (depthmap diverged_st)) 0 0 = 10"
  "elem (getReferenceImage (depthmap diverged_st)) 1 0 = 30"
  by (simp_all add: diverged_st_def Publisher_new_def sample_dm_def grid2_def sample_rmd_def
      empty_cloud_def elem_def)

section \<open>What a call leaves unchanged\<close>

lemma pc_after_frame:
  "depthmap (pc_after env st) = depthmap st" "pc_rgb (pc_after env st) = pc_rgb st"
  "colored (pc_after env st) = colored st" "nh_ok (pc_after env st) = nh_ok st"
  "now (pc_after env st) = now st"
  by (simp_all add: pc_after_def Let_def)

lemma pc_rgb_after_frame:
  "depthmap (pc_rgb_after env st) = depthmap st" "pc (pc_rgb_after env st) = pc st"
  "colored (pc_rgb_after env st) = colored st" "nh_ok (pc_rgb_after env st) = nh_ok st"
  "now (pc_rgb_after env st) = now st"
  by (simp_all add: pc_rgb_after_def Let_def)

lemma publishDepthmap_frame:
  "depthmap (publishDepthmap st) = depthmap st" "pc (publishDepthmap st) = pc st"
  "pc_rgb (publishDepthmap st) = pc_rgb st" "colored (publishDepthmap st) = colored st"
  by (simp_all add: publishDepthmap_def)

lemma publishConvergenceMap_frame:
  assumes "publishConvergenceMap env st = Inr st'"
  shows "depthmap st' = depthmap st" "pc st' = pc st" "pc_rgb st' = pc_rgb st"
  using assms
  by (auto simp: publishConvergenceMap_def Let_def ebind_eq_Inr split: if_splits)

lemma publishDepthmapAndPointCloud_Inr:
  assumes "publishDepthmapAndPointCloud env st = Inr st'"
  shows "st' = pc_rgb_after env (pc_after env (publishDepthmap st))"
  using assms
  by (auto simp: publishDepthmapAndPointCloud_def ebind_eq_Inr
      dest!: publishPointCloud_Inr publishPointCloudRGB_Inr)

lemma publishDepthmapAndPointCloud_total:
  assumes "pc_pre (depthmap st)" "pc_rgb_pre (depthmap st)"
  shows "publishDepthmapAndPointCloud env st
         = Inr (pc_rgb_after env (pc_after env (publishDepthmap st)))"
  using assms
  by (simp add: publishDepthmapAndPointCloud_def publishPointCloud_total
      publishPointCloudRGB_total publishDepthmap_frame pc_after_frame)

lemma invoke_depthmap:
  assumes "invoke env c st = Inr st'"
  shows "depthmap st' = depthmap st"
proof (cases c)
  case PublishDepthmap
  with assms show ?thesis by (auto simp: publishDepthmap_frame)
next
  case PublishPointCloud
  with assms show ?thesis by (auto dest!: publishPointCloud_Inr simp: pc_after_frame)
next
  case PublishPointCloudRGB
  with assms show ?thesis by (auto dest!: publishPointCloudRGB_Inr simp: pc_rgb_after_frame)
next
  case PublishDepthmapAndPointCloud
  with assms show ?thesis
    by (auto dest!: publishDepthmapAndPointCloud_Inr
        simp: pc_rgb_after_frame pc_after_frame publishDepthmap_frame)
next
  case PublishConvergenceMap
  with assms show ?thesis by (auto dest: publishConvergenceMap_frame)
qed

lemma invoke_total:
  assumes "snapshot_ok (depthmap st)"
  shows "\<exists>st'. invoke env c st = Inr st'"
  using assms
  by (cases c)
    (simp_all add: snapshot_ok_def publishPointCloud_total publishPointCloudRGB_total
      publishDepthmapAndPointCloud_total publishConvergenceMap_total)

lemma invoke_points:
  assumes "invoke env c st = Inr st'"
  shows "points (pc st') = points (pc st)
           @ (if c = PublishPointCloud \<or> c = PublishDepthmapAndPointCloud
              then pc_appended env (depthmap st) else [])"
    and "points (pc_rgb st') = points (pc_rgb st)
           @ (if c = PublishPointCloudRGB \<or> c = PublishDepthmapAndPointCloud
              then pc_rgb_appended env (depthmap st) else [])"
proof -
  have pa: "points (pc (pc_after env s)) = points (pc s) @ pc_appended env (depthmap s)" for s
    by (simp add: pc_after_def Let_def)
  have ra: "points (pc_rgb (pc_rgb_after env s))
            = points (pc_rgb s) @ pc_rgb_appended env (depthmap s)" for s
    by (simp add: pc_rgb_after_def Let_def)
  show "points (pc st') = points (pc st)
           @ (if c = PublishPointCloud \<or> c = PublishDepthmapAndPointCloud
              then pc_appended env (depthmap st) else [])"
  proof (cases c)
    case PublishDepthmap
    with assms show ?thesis by (auto simp: publishDepthmap_frame)
  next
    case PublishPointCloud
    with assms show ?thesis by (auto dest!: publishPointCloud_Inr simp: pa)
  next
    case PublishPointCloudRGB
    with assms show ?thesis by (auto dest!: publishPointCloudRGB_Inr simp: pc_rgb_after_frame)
  next
    case PublishDepthmapAndPointCloud
    with assms show ?thesis
      by (auto dest!: publishDepthmapAndPointCloud_Inr
          simp: pc_rgb_after_frame pa publishDepthmap_frame)
  next
    case PublishConvergenceMap
    with assms show ?thesis by (auto dest: publishConvergenceMap_frame)
  qed
  show "points (pc_rgb st') = points (pc_rgb st)
           @ (if c = PublishPointCloudRGB \<or> c = PublishDepthmapAndPointCloud
              then pc_rgb_appended env (depthmap st) else [])"
  proof (cases c)
    case PublishDepthmap
    with assms show ?thesis by (auto simp: publishDepthmap_frame)
  next
    case PublishPointCloud
    with assms show ?thesis by (auto dest!: publishPointCloud_Inr simp: pc_after_frame)
  next
    case PublishPointCloudRGB
    with assms show ?thesis by (auto dest!: publishPointCloudRGB_Inr simp: ra)
  next
    case PublishDepthmapAndPointCloud
    with assms show ?thesis
      by (auto dest!: publishDepthmapAndPointCloud_Inr
          simp: ra pc_after_frame publishDepthmap_frame)
  next
    case PublishConvergenceMap
    with assms show ?thesis by (auto dest: publishConvergenceMap_frame)
  qed
qed

text \<open>
  C7. No operation changes the snapshot: whenever a call returns, the publisher's depth
  map (depth grid, convergence grid, reference images, mask, pose, intrinsics) is what it
  was before the call; and on a snapshot that satisfies the invariant every call returns.
\<close>

theorem snapshot_unchanged:
  "(invoke env c st = Inr st' \<longrightarrow> depthmap st' = depthmap st)
   \<and> (snapshot_ok (depthmap st) \<longrightarrow>
        (\<exists>st''. invoke env c st = Inr st'' \<and> depthmap st'' = depthmap st))"
  using invoke_depthmap [of env c st] invoke_total [of st env c] by blast

lemma sample_snapshot_ok: "snapshot_ok (depthmap sample_st)" "snapshot_ok sample_dm"
  by (simp_all add: snapshot_ok_def sample_st_depthmap sample_dm_pre)

lemma sample_dm2_ok: "snapshot_ok sample_dm2"
  by (simp add: snapshot_ok_def sample_dm2_pre)
    (simp add: conv_pre_def sample_dm2_def sample_dm_def same_size_def wf_Mat_def grid2_def)

theorem snapshot_unchanged_witness:
  "invoke sample_rmd PublishPointCloud sample_st = Inr (pc_after sample_rmd sample_st)
   \<and> depthmap (pc_after sample_rmd sample_st) = depthmap sample_st
   \<and> snapshot_ok (depthmap sample_st)
   \<and> (\<exists>st''. invoke sample_rmd PublishConvergenceMap sample_st = Inr st''
         \<and> depthmap st'' = depthmap sample_st)"
proof -
  have i: "invoke sample_rmd PublishPointCloud sample_st = Inr (pc_after sample_rmd sample_st)"
    using sample_snapshot_ok(1) by (simp add: snapshot_ok_def publishPointCloud_total)
  have "depthmap (pc_after sample_rmd sample_st) = depthmap sample_st"
    using snapshot_unchanged [of sample_rmd PublishPointCloud sample_st
        "pc_after sample_rmd sample_st"] i
    by blast
  moreover have "\<exists>st''. invoke sample_rmd PublishConvergenceMap sample_st = Inr st''
         \<and> depthmap st'' = depthmap sample_st"
    using snapshot_unchanged [of sample_rmd PublishConvergenceMap sample_st sample_st]
      sample_snapshot_ok(1)
    by blast
  ultimately show ?thesis
    using i sample_snapshot_ok(1) by blast
qed

section \<open>Accumulation over sequences of calls\<close>

lemma step_points:
  assumes "step env ev st = Inr st'"
  shows "prefix (points (pc st)) (points (pc st'))"
    and "prefix (points (pc_rgb st)) (points (pc_rgb st'))"
proof -
  show "prefix (points (pc st)) (points (pc st'))"
  proof (cases ev)
    case (Call c)
    with assms show ?thesis using invoke_points(1) [of env c st st'] by simp
  next
    case (Estimator dm)
    with assms show ?thesis by auto
  next
    case (Ros ok t)
    with assms show ?thesis by auto
  qed
  show "prefix (points (pc_rgb st)) (points (pc_rgb st'))"
  proof (cases ev)
    case (Call c)
    with assms show ?thesis using invoke_points(2) [of env c st st'] by simp
  next
    case (Estimator dm)
    with assms show ?thesis by auto
  next
    case (Ros ok t)
    with assms show ?thesis by auto
  qed
qed

lemma run_points:
  assumes "run env evs st = Inr st'"
  shows "prefix (points (pc st)) (points (pc st'))
         \<and> prefix (points (pc_rgb st)) (points (pc_rgb st'))"
  using assms unfolding run_def
proof (induction evs arbitrary: st)
  case Nil
  then show ?case by simp
next
  case (Cons ev evs)
  from Cons.prems obtain s1 where s1: "step env ev st = Inr s1"
    and r: "for_loop evs (step env) s1 = Inr st'"
    by (auto split: sum.splits)
  have "prefix (points (pc st)) (points (pc s1))"
    "prefix (points (pc_rgb st)) (points (pc_rgb s1))"
    using step_points [OF s1] by simp_all
  moreover have "prefix (points (pc s1)) (points (pc st'))
         \<and> prefix (points (pc_rgb s1)) (points (pc_rgb st'))"
    using Cons.IH [OF r] .
  ultimately show ?case
    by (meson prefix_order.order_trans)
qed

lemma run_total:
  assumes "snapshot_ok (depthmap st)" and "\<forall>dm. Estimator dm \<in> set evs \<longrightarrow> snapshot_ok dm"
  shows "\<exists>st'. run env evs st = Inr st'"
  using assms unfolding run_def
proof (induction evs arbitrary: st)
  case Nil
  show ?case by simp
next
  case (Cons ev evs)
  have "\<exists>s1. step env ev st = Inr s1 \<and> snapshot_ok (depthmap s1)"
  proof (cases ev)
    case (Call c)
    obtain s1 where "invoke env c st = Inr s1"
      using invoke_total [OF Cons.prems(1)] by blast
    then show ?thesis
      using Call Cons.prems(1) invoke_depthmap [of env c st s1] by simp
  next
    case (Estimator dm)
    then show ?thesis using Cons.prems(2) by simp
  next
    case (Ros ok t)
    then show ?thesis using Cons.prems(1) by simp
  qed
  then obtain s1 where s1: "step env ev st = Inr s1" "snapshot_ok (depthmap s1)"
    by blast
  have "\<exists>st'. for_loop evs (step env) s1 = Inr st'"
    using Cons.prems(2) by (intro Cons.IH [OF s1(2)]) simp
  then show ?case
    using s1(1) by simp
qed

text \<open>
  C8. The two clouds are members that every call appends to and none clears. A call that
  returns leaves in \<open>pc_\<close> the points that were there followed by the points of the pixels that
  pass its gate (nothing, for a call that is not a projection of that cloud), and likewise
  in \<open>pc_rgb_\<close>; over any sequence of calls and snapshot updates the earlier content stays
  a prefix of the later one; and on snapshots that satisfy the invariant every sequence
  returns.
\<close>

theorem clouds_accumulate:
  "(invoke env c st = Inr st' \<longrightarrow>
      points (pc st') = points (pc st)
        @ (if c = PublishPointCloud \<or> c = PublishDepthmapAndPointCloud
           then pc_appended env (depthmap st) else [])
      \<and> points (pc_rgb st') = points (pc_rgb st)
        @ (if c = PublishPointCloudRGB \<or> c = PublishDepthmapAndPointCloud
           then pc_rgb_appended env (depthmap st) else []))
   \<and> (run env evs st = Inr st'' \<longrightarrow>
        prefix (points (pc st)) (points (pc st''))
        \<and> prefix (points (pc_rgb st)) (points (pc_rgb st'')))
   \<and> (snapshot_ok (depthmap st) \<and> (\<forall>dm. Estimator dm \<in> set evs \<longrightarrow> snapshot_ok dm) \<longrightarrow>
        (\<exists>s. run env evs st = Inr s))"
  using invoke_points [of env c st st'] run_points [of env evs st st''] run_total [of st evs env]
  by blast

lemma sample_points_after:
  "length (points (pc (pc_after sample_rmd sample_st))) = 2"
  "length (points (pc (pc_after sample_rmd (pc_after sample_rmd sample_st)))) = 4"
  by (simp_all add: points_pc_after pc_after_frame sample_st_depthmap sample_converged_pixels)
    (simp_all add: sample_st_def Publisher_new_def empty_cloud_def)

theorem clouds_accumulate_witness:
  "invoke sample_rmd PublishPointCloud sample_st = Inr (pc_after sample_rmd sample_st)
   \<and> points (pc (pc_after sample_rmd sample_st))
       = points (pc sample_st) @ pc_appended sample_rmd (depthmap sample_st)
   \<and> length (points (pc (pc_after sample_rmd sample_st))) = 2
   \<and> snapshot_ok (depthmap (pc_after sample_rmd sample_st)) \<and> snapshot_ok sample_dm2
   \<and> (\<exists>s. run sample_rmd [Call PublishPointCloud, Estimator sample_dm2,
                Call PublishDepthmapAndPointCloud] (pc_after sample_rmd sample_st) = Inr s
         \<and> prefix (points (pc (pc_after sample_rmd sample_st))) (points (pc s)))"
proof -
  let ?st1 = "pc_after sample_rmd sample_st"
  let ?evs = "[Call PublishPointCloud, Estimator sample_dm2, Call PublishDepthmapAndPointCloud]"
  have i: "invoke sample_rmd PublishPointCloud sample_st = Inr ?st1"
    using sample_snapshot_ok(1) by (simp add: snapshot_ok_def publishPointCloud_total)
  have ok: "snapshot_ok (depthmap ?st1)"
    using sample_snapshot_ok(1) by (simp add: pc_after_frame)
  have evs: "\<forall>dm. Estimator dm \<in> set ?evs \<longrightarrow> snapshot_ok dm"
    using sample_dm2_ok by simp
  have "points (pc ?st1) = points (pc sample_st) @ pc_appended sample_rmd (depthmap sample_st)"
    using clouds_accumulate [of sample_rmd PublishPointCloud sample_st ?st1] i by simp
  moreover obtain s where s: "run sample_rmd ?evs ?st1 = Inr s"
    using clouds_accumulate [of sample_rmd PublishPointCloud ?st1 ?st1 ?evs] ok evs by blast
  moreover have "prefix (points (pc ?st1)) (points (pc s))"
    using clouds_accumulate [of sample_rmd PublishPointCloud ?st1 ?st1 ?evs s] s by blast
  ultimately show ?thesis
    using i ok sample_dm2_ok sample_points_after(1) by blast
qed

section \<open>Calling an operation twice\<close>

lemma pc_body_indep:
  "pc_body env dm y x s = Inr s' \<Longrightarrow> \<exists>t'. pc_body env dm y x t = Inr t'"
  by (auto simp: pc_body_def Let_def ebind_eq_Inr split: if_splits)

lemma pc_rgb_body_returns:
  "(\<exists>s'. pc_rgb_body env dm y x s = Inr s') \<longleftrightarrow>
     in_range (getDepthmap dm) y x \<and> in_range (getConvergenceMap dm) y x
     \<and> (elem (getConvergenceMap dm) y x = CONVERGED env \<longrightarrow>
          in_range (getReferenceMask dm) y x
          \<and> (elem (getReferenceMask dm) y x = 1 \<longrightarrow> in_range (getReferenceImageRGB dm) y x))"
  by (auto simp: pc_rgb_body_def at_def Let_def elem_def uint_eq_1)

lemma pc_rgb_body_indep:
  assumes "pc_rgb_body env dm y x s = Inr s'"
  shows "\<exists>t'. pc_rgb_body env dm y x t = Inr t'"
proof -
  have "\<exists>s'. pc_rgb_body env dm y x s = Inr s'"
    using assms by blast
  then show ?thesis
    using pc_rgb_body_returns [of env dm y x s] pc_rgb_body_returns [of env dm y x t]
    by blast
qed

lemma publishPointCloud_again:
  assumes "publishPointCloud env s = Inr s'" and "depthmap t = depthmap s"
  shows "publishPointCloud env t = Inr (pc_after env t)"
proof -
  let ?dm = "depthmap s"
  let ?ps = "raster (rows (getDepthmap ?dm)) (cols (getDepthmap ?dm))"
  obtain c where "for_loop ?ps (\<lambda>p. pc_body env ?dm (fst p) (snd p)) (pc s) = Inr c"
    using assms(1)
    by (auto simp: publishPointCloud_def Let_def ebind_eq_Inr for_loop_nested raster_def)
  then have "\<exists>c'. for_loop ?ps (\<lambda>p. pc_body env ?dm (fst p) (snd p)) (pc t) = Inr c'"
    by (rule for_loop_indep [rotated]) (rule pc_body_indep)
  then have "\<exists>t'. publishPointCloud env t = Inr t'"
    using assms(2)
    by (auto simp: publishPointCloud_def Let_def for_loop_nested raster_def)
  then show ?thesis
    using publishPointCloud_Inr by blast
qed

lemma publishPointCloudRGB_again:
  assumes "publishPointCloudRGB env s = Inr s'" and "depthmap t = depthmap s"
  shows "publishPointCloudRGB env t = Inr (pc_rgb_after env t)"
proof -
  let ?dm = "depthmap s"
  let ?ps = "raster (rows (getDepthmap ?dm)) (cols (getDepthmap ?dm))"
  obtain c where "for_loop ?ps (\<lambda>p. pc_rgb_body env ?dm (fst p) (snd p)) (pc_rgb s) = Inr c"
    using assms(1)
    by (auto simp: publishPointCloudRGB_def Let_def ebind_eq_Inr for_loop_nested raster_def)
  then have "\<exists>c'. for_loop ?ps (\<lambda>p. pc_rgb_body env ?dm (fst p) (snd p)) (pc_rgb t) = Inr c'"
    by (rule for_loop_indep [rotated]) (rule pc_rgb_body_indep)
  then have "\<exists>t'. publishPointCloudRGB env t = Inr t'"
    using assms(2)
    by (auto simp: publishPointCloudRGB_def Let_def for_loop_nested raster_def)
  then show ?thesis
    using publishPointCloudRGB_Inr by blast
qed

lemma publishConvergenceMap_again:
  assumes "publishConvergenceMap env s = Inr s'" and "depthmap t = depthmap s"
  shows "\<exists>t'. publishConvergenceMap env t = Inr t' \<and> colored t' = colored s'"
proof -
  let ?col0 = "cvtColor_GRAY2BGR (getReferenceImage (depthmap s))"
  obtain col where l: "for_loop [0..<rows ?col0] (\<lambda>r.
        for_loop [0..<cols ?col0] (\<lambda>c. conv_body env (getConvergenceMap (depthmap s)) r c))
        ?col0 = Inr col"
    and c: "colored s' = col"
    using assms(1)
    by (auto simp: publishConvergenceMap_def Let_def ebind_eq_Inr split: if_splits)
  show ?thesis
    using l c assms(2)
    by (cases "nh_ok t") (simp_all add: publishConvergenceMap_def Let_def)
qed

lemma published_pc_after:
  "published (pc_after env st)
   = published st @ (if points (pc (pc_after env st)) \<noteq> [] \<and> nh_ok st
                     then [PointCloud_msg (pc (pc_after env st))] else [])"
  by (simp add: pc_after_def Let_def)

text \<open>
  C1, as the code has it. On an unmodified snapshot (\<open>t\<close> is any later state of the
  publisher with the depth map of \<open>s\<close>) a second call of an operation returns when the
  first did; the rendered convergence image is the same both times; each projector
  appends the same points both times, to whatever its cloud holds by then.
\<close>

theorem second_call_on_same_snapshot:
  assumes "depthmap t = depthmap s"
  shows "(publishConvergenceMap env s = Inr s' \<longrightarrow>
            (\<exists>t'. publishConvergenceMap env t = Inr t' \<and> colored t' = colored s'))
       \<and> (publishPointCloud env s = Inr s' \<longrightarrow>
            (\<exists>t'. publishPointCloud env t = Inr t'
               \<and> points (pc s') = points (pc s) @ pc_appended env (depthmap s)
               \<and> points (pc t') = points (pc t) @ pc_appended env (depthmap s)))
       \<and> (publishPointCloudRGB env s = Inr s' \<longrightarrow>
            (\<exists>t'. publishPointCloudRGB env t = Inr t'
               \<and> points (pc_rgb s') = points (pc_rgb s) @ pc_rgb_appended env (depthmap s)
               \<and> points (pc_rgb t') = points (pc_rgb t) @ pc_rgb_appended env (depthmap s)))"
proof (intro conjI impI)
  assume "publishConvergenceMap env s = Inr s'"
  then show "\<exists>t'. publishConvergenceMap env t = Inr t' \<and> colored t' = colored s'"
    using assms by (rule publishConvergenceMap_again)
next
  assume h: "publishPointCloud env s = Inr s'"
  have "points (pc (pc_after env u)) = points (pc u) @ pc_appended env (depthmap u)" for u
    by (simp add: pc_after_def Let_def)
  then show "\<exists>t'. publishPointCloud env t = Inr t'
               \<and> points (pc s') = points (pc s) @ pc_appended env (depthmap s)
               \<and> points (pc t') = points (pc t) @ pc_appended env (depthmap s)"
    using publishPointCloud_again [OF h assms] publishPointCloud_Inr [OF h] assms by simp
next
  assume h: "publishPointCloudRGB env s = Inr s'"
  have "points (pc_rgb (pc_rgb_after env u))
        = points (pc_rgb u) @ pc_rgb_appended env (depthmap u)" for u
    by (simp add: pc_rgb_after_def Let_def)
  then show "\<exists>t'. publishPointCloudRGB env t = Inr t'
               \<and> points (pc_rgb s') = points (pc_rgb s) @ pc_rgb_appended env (depthmap s)
               \<and> points (pc_rgb t') = points (pc_rgb t) @ pc_rgb_appended env (depthmap s)"
    using publishPointCloudRGB_again [OF h assms] publishPointCloudRGB_Inr [OF h] assms by simp
qed

lemma conv_after_depthmap: "depthmap (conv_after env st) = depthmap st"
  by (simp add: conv_after_def Let_def)

theorem second_call_on_same_snapshot_witness:
  "depthmap (pc_after sample_rmd sample_st) = depthmap sample_st
   \<and> publishPointCloud sample_rmd sample_st = Inr (pc_after sample_rmd sample_st)
   \<and> (\<exists>t'. publishPointCloud sample_rmd (pc_after sample_rmd sample_st) = Inr t'
         \<and> points (pc t') = points (pc (pc_after sample_rmd sample_st))
                             @ pc_appended sample_rmd (depthmap sample_st))
   \<and> depthmap (pc_rgb_after sample_rmd sample_st) = depthmap sample_st
   \<and> publishPointCloudRGB sample_rmd sample_st = Inr (pc_rgb_after sample_rmd sample_st)
   \<and> (\<exists>t'. publishPointCloudRGB sample_rmd (pc_rgb_after sample_rmd sample_st) = Inr t'
         \<and> points (pc_rgb t') = points (pc_rgb (pc_rgb_after sample_rmd sample_st))
                                 @ pc_rgb_appended sample_rmd (depthmap sample_st))
   \<and> depthmap (conv_after sample_rmd sample_st) = depthmap sample_st
   \<and> publishConvergenceMap sample_rmd sample_st = Inr (conv_after sample_rmd sample_st)
   \<and> (\<exists>t'. publishConvergenceMap sample_rmd (conv_after sample_rmd sample_st) = Inr t'
         \<and> colored t' = colored (conv_after sample_rmd sample_st))"
proof -
  let ?p = "pc_after sample_rmd sample_st" and ?q = "pc_rgb_after sample_rmd sample_st"
    and ?r = "conv_after sample_rmd sample_st"
  have dp: "depthmap ?p = depthmap sample_st" and dq: "depthmap ?q = depthmap sample_st"
    and dr: "depthmap ?r = depthmap sample_st"
    by (simp_all add: pc_after_frame pc_rgb_after_frame conv_after_depthmap)
  have ok: "pc_pre (depthmap sample_st)" "pc_rgb_pre (depthmap sample_st)"
    "conv_pre (depthmap sample_st)"
    using sample_snapshot_ok(1) by (simp_all add: snapshot_ok_def)
  have cp: "publishPointCloud sample_rmd sample_st = Inr ?p"
    and cq: "publishPointCloudRGB sample_rmd sample_st = Inr ?q"
    and cr: "publishConvergenceMap sample_rmd sample_st = Inr ?r"
    using ok by (simp_all add: publishPointCloud_total publishPointCloudRGB_total
        publishConvergenceMap_total)
  have "\<exists>t'. publishPointCloud sample_rmd ?p = Inr t'
         \<and> points (pc t') = points (pc ?p) @ pc_appended sample_rmd (depthmap sample_st)"
    using second_call_on_same_snapshot [OF dp, of sample_rmd ?p] cp by blast
  moreover have "\<exists>t'. publishPointCloudRGB sample_rmd ?q = Inr t'
         \<and> points (pc_rgb t') = points (pc_rgb ?q)
                                 @ pc_rgb_appended sample_rmd (depthmap sample_st)"
    using second_call_on_same_snapshot [OF dq, of sample_rmd ?q] cq by blast
  moreover have "\<exists>t'. publishConvergenceMap sample_rmd ?r = Inr t' \<and> colored t' = colored ?r"
    using second_call_on_same_snapshot [OF dr, of sample_rmd ?r] cr by blast
  ultimately show ?thesis
    using dp dq dr cp cq cr by blast
qed

text \<open>
  C1 as stated fails for the projections: on the sample snapshot, left unmodified, the
  first call of \<open>publishPointCloud\<close> publishes a cloud of 2 points and the second call a
  cloud of 4 points, because \<open>pc_\<close> is not cleared between the calls.
\<close>

theorem publishPointCloud_twice_counterexample:
  "publishPointCloud sample_rmd sample_st = Inr (pc_after sample_rmd sample_st)
   \<and> depthmap (pc_after sample_rmd sample_st) = depthmap sample_st
   \<and> publishPointCloud sample_rmd (pc_after sample_rmd sample_st)
       = Inr (pc_after sample_rmd (pc_after sample_rmd sample_st))
   \<and> published (pc_after sample_rmd (pc_after sample_rmd sample_st))
       = [PointCloud_msg (pc (pc_after sample_rmd sample_st)),
          PointCloud_msg (pc (pc_after sample_rmd (pc_after sample_rmd sample_st)))]
   \<and> length (points (pc (pc_after sample_rmd sample_st))) = 2
   \<and> length (points (pc (pc_after sample_rmd (pc_after sample_rmd sample_st)))) = 4
   \<and> pc (pc_after sample_rmd sample_st) \<noteq> pc (pc_after sample_rmd (pc_after sample_rmd sample_st))"
proof -
  let ?p = "pc_after sample_rmd sample_st"
  let ?pp = "pc_after sample_rmd ?p"
  have dp: "depthmap ?p = depthmap sample_st"
    by (simp add: pc_after_frame)
  have ok: "pc_pre (depthmap sample_st)"
    using sample_snapshot_ok(1) by (simp add: snapshot_ok_def)
  have c1: "publishPointCloud sample_rmd sample_st = Inr ?p"
    using ok by (simp add: publishPointCloud_total)
  have c2: "publishPointCloud sample_rmd ?p = Inr ?pp"
    using ok dp by (simp add: publishPointCloud_total)
  have ne: "points (pc ?p) \<noteq> []" "points (pc ?pp) \<noteq> []"
    using sample_points_after by auto
  have up: "nh_ok sample_st" "nh_ok ?p" "published sample_st = []"
    by (simp_all add: pc_after_frame) (simp_all add: sample_st_def Publisher_new_def)
  have pub: "published ?pp = [PointCloud_msg (pc ?p), PointCloud_msg (pc ?pp)]"
    using ne up published_pc_after [of sample_rmd ?p] published_pc_after [of sample_rmd sample_st]
    by simp
  have "pc ?p \<noteq> pc ?pp"
    using sample_points_after by auto
  then show ?thesis
    using c1 c2 dp pub sample_points_after by blast
qed

section \<open>The colour attribute of a colored point\<close>

lemma rgb_pc_rgb_point:
  "rgb (pc_rgb_point env dm p)
   = reinterpret_float (pack_rgb (elem (getReferenceImageRGB dm) (fst p) (snd p)))"
  by (simp add: pc_rgb_point_def Let_def)

lemma unpack_pack_rgb:
  "unpack_rgb_spec (reinterpret_float (pack_rgb v)) = (ch2 v, ch1 v, ch0 v)"
  by (simp add: unpack_rgb_spec_def reinterpret_float_def pack_rgb_low pack_rgb_mid pack_rgb_high)

lemma pack_rgb_sample: "pack_rgb \<lparr>ch0 = 30, ch1 = 20, ch2 = 10\<rparr> = 0x0A141E"
  by (simp add: pack_rgb_def)

text \<open>
  C4. For every pixel that passes its gate the colored projector reads the colour pixel
  \<open>v\<close> in (B, G, R) channel order (channel 0 is B, channel 2 is R) and stores in the float
  attribute \<open>rgb\<close> of the appended point exactly the bits of the 24-bit value with R in the
  high byte, G in the middle byte and B in the low byte (the top byte of the 32-bit word
  is zero); unpacking that attribute by the inverse rule gives back (R, G, B). The pixel
  (R=10, G=20, B=30) is stored as \<open>0x0A141E\<close> and round-trips to (10, 20, 30).
\<close>

theorem colored_points_carry_packed_rgb:
  assumes "pc_rgb_pre (depthmap st)"
  shows "\<exists>st' new. publishPointCloudRGB env st = Inr st'
     \<and> points (pc_rgb st') = points (pc_rgb st) @ new
     \<and> map rgb new
         = map (\<lambda>p. reinterpret_float
                  (push_bit 16 (ucast (ch2 (elem (getReferenceImageRGB (depthmap st)) (fst p) (snd p))))
                   OR push_bit 8 (ucast (ch1 (elem (getReferenceImageRGB (depthmap st)) (fst p) (snd p))))
                   OR ucast (ch0 (elem (getReferenceImageRGB (depthmap st)) (fst p) (snd p)))))
             (masked_pixels env (depthmap st))
     \<and> map (\<lambda>q. unpack_rgb_spec (rgb q)) new
         = map (\<lambda>p. (ch2 (elem (getReferenceImageRGB (depthmap st)) (fst p) (snd p)),
                      ch1 (elem (getReferenceImageRGB (depthmap st)) (fst p) (snd p)),
                      ch0 (elem (getReferenceImageRGB (depthmap st)) (fst p) (snd p))))
             (masked_pixels env (depthmap st))
     \<and> (\<forall>q \<in> set new. drop_bit 24 (rgb q) = 0)
     \<and> unpack_rgb_spec (reinterpret_float (pack_rgb v)) = (ch2 v, ch1 v, ch0 v)
     \<and> reinterpret_float (pack_rgb \<lparr>ch0 = 30, ch1 = 20, ch2 = 10\<rparr>) = 0x0A141E
     \<and> unpack_rgb_spec (reinterpret_float (pack_rgb \<lparr>ch0 = 30, ch1 = 20, ch2 = 10\<rparr>))
         = (10, 20, 30)"
proof -
  let ?new = "map (pc_rgb_point env (depthmap st)) (masked_pixels env (depthmap st))"
  have ret: "publishPointCloudRGB env st = Inr (pc_rgb_after env st)"
    using assms by (rule publishPointCloudRGB_total)
  have pts: "points (pc_rgb (pc_rgb_after env st)) = points (pc_rgb st) @ ?new"
    by (rule points_pc_rgb_after)
  have a: "map rgb ?new
         = map (\<lambda>p. reinterpret_float
                  (push_bit 16 (ucast (ch2 (elem (getReferenceImageRGB (depthmap st)) (fst p) (snd p))))
                   OR push_bit 8 (ucast (ch1 (elem (getReferenceImageRGB (depthmap st)) (fst p) (snd p))))
                   OR ucast (ch0 (elem (getReferenceImageRGB (depthmap st)) (fst p) (snd p)))))
             (masked_pixels env (depthmap st))"
    by (simp add: rgb_pc_rgb_point pack_rgb_def)
  have b: "map (\<lambda>q. unpack_rgb_spec (rgb q)) ?new
         = map (\<lambda>p. (ch2 (elem (getReferenceImageRGB (depthmap st)) (fst p) (snd p)),
                      ch1 (elem (getReferenceImageRGB (depthmap st)) (fst p) (snd p)),
                      ch0 (elem (getReferenceImageRGB (depthmap st)) (fst p) (snd p))))
             (masked_pixels env (depthmap st))"
    by (simp add: rgb_pc_rgb_point unpack_pack_rgb)
  have c: "\<forall>q \<in> set ?new. drop_bit 24 (rgb q) = 0"
    by (auto simp: rgb_pc_rgb_point reinterpret_float_def pack_rgb_top)
  have d: "unpack_rgb_spec (reinterpret_float (pack_rgb \<lparr>ch0 = 30, ch1 = 20, ch2 = 10\<rparr>))
         = (10, 20, 30)"
    by (simp add: unpack_pack_rgb)
  have e: "reinterpret_float (pack_rgb \<lparr>ch0 = 30, ch1 = 20, ch2 = 10\<rparr>) = 0x0A141E"
    by (simp add: pack_rgb_sample reinterpret_float_def)
  show ?thesis
    using ret pts a b c d e unpack_pack_rgb [of v] by blast
qed

lemma sample_rgb_pixel:
  "elem (getReferenceImageRGB (depthmap sample_st)) 0 0 = \<lparr>ch0 = 30, ch1 = 20, ch2 = 10\<rparr>"
  by (simp add: sample_st_depthmap sample_dm_def grid2_def elem_def)

theorem colored_points_carry_packed_rgb_witness:
  "pc_rgb_pre (depthmap sample_st)
   \<and> elem (getReferenceImageRGB (depthmap sample_st)) 0 0 = \<lparr>ch0 = 30, ch1 = 20, ch2 = 10\<rparr>
   \<and> (\<exists>st'. publishPointCloudRGB sample_rmd sample_st = Inr st'
         \<and> map rgb (points (pc_rgb st')) = [0x0A141E]
         \<and> map (\<lambda>q. unpack_rgb_spec (rgb q)) (points (pc_rgb st')) = [(10, 20, 30)])"
proof -
  obtain st' new where r: "publishPointCloudRGB sample_rmd sample_st = Inr st'"
    and p: "points (pc_rgb st') = points (pc_rgb sample_st) @ new"
    and a: "map rgb new
         = map (\<lambda>p. reinterpret_float
                  (push_bit 16 (ucast (ch2 (elem (getReferenceImageRGB (depthmap sample_st)) (fst p) (snd p))))
                   OR push_bit 8 (ucast (ch1 (elem (getReferenceImageRGB (depthmap sample_st)) (fst p) (snd p))))
                   OR ucast (ch0 (elem (getReferenceImageRGB (depthmap sample_st)) (fst p) (snd p)))))
             (masked_pixels sample_rmd (depthmap sample_st))"
    and b: "map (\<lambda>q. unpack_rgb_spec (rgb q)) new
         = map (\<lambda>p. (ch2 (elem (getReferenceImageRGB (depthmap sample_st)) (fst p) (snd p)),
                      ch1 (elem (getReferenceImageRGB (depthmap sample_st)) (fst p) (snd p)),
                      ch0 (elem (getReferenceImageRGB (depthmap sample_st)) (fst p) (snd p))))
             (masked_pixels sample_rmd (depthmap sample_st))"
    using colored_points_carry_packed_rgb [OF sample_pc_rgb_pre, of sample_rmd] by blast
  have e: "points (pc_rgb sample_st) = []"
    by (simp add: sample_st_def Publisher_new_def empty_cloud_def)
  have m: "masked_pixels sample_rmd (depthmap sample_st) = [(0, 0)]"
    by (simp add: sample_st_depthmap sample_masked_pixels)
  have "map rgb (points (pc_rgb st')) = [0x0A141E]"
    using a by (simp add: p e m sample_rgb_pixel reinterpret_float_def)
  moreover have "map (\<lambda>q. unpack_rgb_spec (rgb q)) (points (pc_rgb st')) = [(10, 20, 30)]"
    using b by (simp add: p e m sample_rgb_pixel)
  ultimately have "\<exists>st'. publishPointCloudRGB sample_rmd sample_st = Inr st'
         \<and> map rgb (points (pc_rgb st')) = [0x0A141E]
         \<and> map (\<lambda>q. unpack_rgb_spec (rgb q)) (points (pc_rgb st')) = [(10, 20, 30)]"
    using r by (intro exI [of _ st'] conjI)
  with sample_pc_rgb_pre sample_rgb_pixel show ?thesis
    by (intro conjI)
qed

section \<open>Snapshots without a CONVERGED pixel\<close>

lemma published_pc_rgb_after:
  "published (pc_rgb_after env st)
   = published st @ (if points (pc_rgb (pc_rgb_after env st)) \<noteq> [] \<and> nh_ok st
                     then [PointCloudRGB_msg (pc_rgb (pc_rgb_after env st))] else [])"
  by (simp add: pc_rgb_after_def Let_def)

lemma tint_gray_iff:
  "s \<noteq> CONVERGED env \<Longrightarrow> tint env s g = gray3 g \<longleftrightarrow> (s = DIVERGED env \<longrightarrow> g = 255)"
  by (auto simp: tint_def gray3_def)

lemma render_eq_gray_iff:
  assumes "same_size ref_img convergence" and "CONVERGED env \<notin> set (data convergence)"
  shows "render env convergence ref_img = cvtColor_GRAY2BGR ref_img \<longleftrightarrow>
         (\<forall>sg \<in> set (zip (data convergence) (data ref_img)).
            fst sg = DIVERGED env \<longrightarrow> snd sg = 255)"
proof -
  let ?c = "data convergence" and ?r = "data ref_img"
  have len: "length ?c = length ?r"
    using assms(1) by (simp add: same_size_def wf_Mat_def)
  have nc: "?c ! i \<noteq> CONVERGED env" if "i < length ?r" for i
    using assms(2) that len by (metis nth_mem)
  let ?f = "\<lambda>i. tint env (?c ! i) (?r ! i)"
  have d1: "data (render env convergence ref_img) = map ?f [0..<length ?r]"
    by (simp add: render_def)
  have d2: "data (cvtColor_GRAY2BGR ref_img) = map gray3 ?r"
    by (simp add: cvtColor_GRAY2BGR_def gray3_def [abs_def])
  have "render env convergence ref_img = cvtColor_GRAY2BGR ref_img \<longleftrightarrow>
        map ?f [0..<length ?r] = map gray3 ?r"
  proof
    assume "render env convergence ref_img = cvtColor_GRAY2BGR ref_img"
    then have "data (render env convergence ref_img) = data (cvtColor_GRAY2BGR ref_img)"
      by (rule arg_cong)
    then show "map ?f [0..<length ?r] = map gray3 ?r"
      by (simp only: d1 d2)
  next
    assume "map ?f [0..<length ?r] = map gray3 ?r"
    then have "data (render env convergence ref_img) = data (cvtColor_GRAY2BGR ref_img)"
      by (simp only: d1 d2)
    then show "render env convergence ref_img = cvtColor_GRAY2BGR ref_img"
      by (intro Mat.equality) (simp_all add: render_def cvtColor_GRAY2BGR_def)
  qed
  also have "\<dots> \<longleftrightarrow> (\<forall>i < length ?r. ?f i = gray3 (?r ! i))"
  proof
    assume eq: "map ?f [0..<length ?r] = map gray3 ?r"
    show "\<forall>i < length ?r. ?f i = gray3 (?r ! i)"
    proof (intro allI impI)
      fix i assume i: "i < length ?r"
      from eq have "map ?f [0..<length ?r] ! i = map gray3 ?r ! i"
        by (rule arg_cong)
      then show "?f i = gray3 (?r ! i)"
        using i by simp
    qed
  next
    assume "\<forall>i < length ?r. ?f i = gray3 (?r ! i)"
    then show "map ?f [0..<length ?r] = map gray3 ?r"
      by (intro nth_equalityI) simp_all
  qed
  also have "\<dots> \<longleftrightarrow> (\<forall>i < length ?r. ?c ! i = DIVERGED env \<longrightarrow> ?r ! i = 255)"
    using nc by (simp add: tint_gray_iff)
  also have "\<dots> \<longleftrightarrow> (\<forall>sg \<in> set (zip ?c ?r). fst sg = DIVERGED env \<longrightarrow> snd sg = 255)"
  proof
    assume h: "\<forall>i < length ?r. ?c ! i = DIVERGED env \<longrightarrow> ?r ! i = 255"
    show "\<forall>sg \<in> set (zip ?c ?r). fst sg = DIVERGED env \<longrightarrow> snd sg = 255"
    proof (intro ballI impI)
      fix sg assume sg: "sg \<in> set (zip ?c ?r)" and d: "fst sg = DIVERGED env"
      from sg obtain i where "i < length ?r" "sg = (?c ! i, ?r ! i)"
        using len by (auto simp: set_zip)
      then show "snd sg = 255"
        using h d by simp
    qed
  next
    assume h: "\<forall>sg \<in> set (zip ?c ?r). fst sg = DIVERGED env \<longrightarrow> snd sg = 255"
    show "\<forall>i < length ?r. ?c ! i = DIVERGED env \<longrightarrow> ?r ! i = 255"
    proof (intro allI impI)
      fix i assume i: "i < length ?r" and d: "?c ! i = DIVERGED env"
      have "(?c ! i, ?r ! i) \<in> set (zip ?c ?r)"
        using len i by (auto simp: set_zip)
      with h have "fst (?c ! i, ?r ! i) = DIVERGED env \<longrightarrow> snd (?c ! i, ?r ! i) = 255"
        by (rule bspec)
      then show "?r ! i = 255"
        using d by simp
    qed
  qed
  finally show ?thesis .
qed

text \<open>
  C6, as the code has it. When no pixel is CONVERGED, both projectors return without a
  failure and add no point: each cloud keeps exactly the points it held; a cloud that was
  empty stays empty with nothing published and the publisher as it was, and a cloud that
  holds points of earlier calls is published again when the node is up. In the rendered
  image every pixel that is not DIVERGED has the gray value in all three channels, and
  every DIVERGED pixel has the gray value in channels 0 and 1 and 255 in channel 2; so the
  image is the gray-replicated input exactly when every DIVERGED pixel has gray value 255,
  in particular when no pixel is DIVERGED.
\<close>

theorem nothing_converged:
  assumes "pc_pre (depthmap st)" "pc_rgb_pre (depthmap st)" "conv_pre (depthmap st)"
    and "CONVERGED env \<notin> set (data (getConvergenceMap (depthmap st)))"
  shows "\<exists>s1 s2 s3.
       publishPointCloud env st = Inr s1 \<and> points (pc s1) = points (pc st)
       \<and> (points (pc st) = [] \<longrightarrow> s1 = st)
       \<and> (points (pc st) \<noteq> [] \<and> nh_ok st \<longrightarrow>
            published s1 = published st @ [PointCloud_msg (pc s1)])
     \<and> publishPointCloudRGB env st = Inr s2 \<and> points (pc_rgb s2) = points (pc_rgb st)
       \<and> (points (pc_rgb st) = [] \<longrightarrow> s2 = st)
       \<and> (points (pc_rgb st) \<noteq> [] \<and> nh_ok st \<longrightarrow>
            published s2 = published st @ [PointCloudRGB_msg (pc_rgb s2)])
     \<and> publishConvergenceMap env st = Inr s3
       \<and> (\<forall>y x. y < rows (getReferenceImage (depthmap st))
              \<and> x < cols (getReferenceImage (depthmap st))
              \<and> elem (getConvergenceMap (depthmap st)) y x \<noteq> DIVERGED env \<longrightarrow>
            at (colored s3) y x = Inr (gray3 (elem (getReferenceImage (depthmap st)) y x)))
       \<and> (\<forall>y x. y < rows (getReferenceImage (depthmap st))
              \<and> x < cols (getReferenceImage (depthmap st))
              \<and> elem (getConvergenceMap (depthmap st)) y x = DIVERGED env \<longrightarrow>
            at (colored s3) y x
              = Inr \<lparr>ch0 = elem (getReferenceImage (depthmap st)) y x,
                     ch1 = elem (getReferenceImage (depthmap st)) y x, ch2 = 255\<rparr>)
       \<and> (colored s3 = cvtColor_GRAY2BGR (getReferenceImage (depthmap st)) \<longleftrightarrow>
            (\<forall>sg \<in> set (zip (data (getConvergenceMap (depthmap st)))
                              (data (getReferenceImage (depthmap st)))).
               fst sg = DIVERGED env \<longrightarrow> snd sg = 255))
       \<and> (DIVERGED env \<notin> set (data (getConvergenceMap (depthmap st))) \<longrightarrow>
            colored s3 = cvtColor_GRAY2BGR (getReferenceImage (depthmap st)))"
proof -
  let ?c = "getConvergenceMap (depthmap st)" and ?r = "getReferenceImage (depthmap st)"
  have size: "same_size (getDepthmap (depthmap st)) ?c" and rc: "same_size ?r ?c"
    using assms(1,3) by (simp_all add: pc_pre_def conv_pre_def)
  have none: "pc_appended env (depthmap st) = []" "pc_rgb_appended env (depthmap st) = []"
    using no_converged_pixels [OF size assms(4)]
    by (simp_all add: pc_appended_def pc_rgb_appended_def)
  have p1: "points (pc (pc_after env st)) = points (pc st)"
    "points (pc st) = [] \<longrightarrow> pc_after env st = st"
    "points (pc st) \<noteq> [] \<and> nh_ok st \<longrightarrow>
       published (pc_after env st) = published st @ [PointCloud_msg (pc (pc_after env st))]"
    using none by (simp_all add: pc_after_def Let_def)
  have p2: "points (pc_rgb (pc_rgb_after env st)) = points (pc_rgb st)"
    "points (pc_rgb st) = [] \<longrightarrow> pc_rgb_after env st = st"
    "points (pc_rgb st) \<noteq> [] \<and> nh_ok st \<longrightarrow>
       published (pc_rgb_after env st)
       = published st @ [PointCloudRGB_msg (pc_rgb (pc_rgb_after env st))]"
    using none by (simp_all add: pc_rgb_after_def Let_def)
  have nc: "elem ?c y x \<noteq> CONVERGED env" if "y < rows ?r" "x < cols ?r" for y x
  proof -
    have "elem ?c y x \<in> set (data ?c)"
      using rc that by (intro elem_in_data) (simp_all add: same_size_def)
    then show ?thesis
      using assms(4) by auto
  qed
  have px: "at (colored (conv_after env st)) y x = Inr (gray3 (elem ?r y x))"
    if "y < rows ?r" "x < cols ?r" "elem ?c y x \<noteq> DIVERGED env" for y x
    using at_render [OF rc that(1,2), of env] that(3) nc [OF that(1,2)]
    by (simp add: colored_conv_after tint_def)
  have pd: "at (colored (conv_after env st)) y x
            = Inr \<lparr>ch0 = elem ?r y x, ch1 = elem ?r y x, ch2 = 255\<rparr>"
    if "y < rows ?r" "x < cols ?r" "elem ?c y x = DIVERGED env" for y x
    using at_render [OF rc that(1,2), of env] that(3) nc [OF that(1,2)]
    by (simp add: colored_conv_after tint_def)
  have iff: "colored (conv_after env st) = cvtColor_GRAY2BGR ?r \<longleftrightarrow>
            (\<forall>sg \<in> set (zip (data ?c) (data ?r)). fst sg = DIVERGED env \<longrightarrow> snd sg = 255)"
    using render_eq_gray_iff [OF rc assms(4)] by (simp only: colored_conv_after)
  have whole: "DIVERGED env \<notin> set (data ?c) \<longrightarrow> colored (conv_after env st) = cvtColor_GRAY2BGR ?r"
    using render_gray [OF rc assms(4)] by (simp add: colored_conv_after)
  have r1: "publishPointCloud env st = Inr (pc_after env st)"
    using assms(1) by (rule publishPointCloud_total)
  have r2: "publishPointCloudRGB env st = Inr (pc_rgb_after env st)"
    using assms(2) by (rule publishPointCloudRGB_total)
  have r3: "publishConvergenceMap env st = Inr (conv_after env st)"
    using assms(3) by (rule publishConvergenceMap_total)
  show ?thesis
    apply (rule exI [of _ "pc_after env st"])
    apply (rule exI [of _ "pc_rgb_after env st"])
    apply (rule exI [of _ "conv_after env st"])
    apply (intro conjI)
    using r1 r2 r3 p1 p2 px pd iff whole by blast+
qed

lemma diverged_white_st_facts:
  "pc_pre (depthmap diverged_white_st)" "pc_rgb_pre (depthmap diverged_white_st)"
  "conv_pre (depthmap diverged_white_st)"
  "CONVERGED sample_rmd \<notin> set (data (getConvergenceMap (depthmap diverged_white_st)))"
  "\<forall>sg \<in> set (zip (data (getConvergenceMap (depthmap diverged_white_st)))
                    (data (getReferenceImage (depthmap diverged_white_st)))).
     fst sg = DIVERGED sample_rmd \<longrightarrow> snd sg = 255"
  "elem (getConvergenceMap (depthmap diverged_white_st)) 1 0 = DIVERGED sample_rmd"
  by (simp_all add: diverged_white_st_def Publisher_new_def sample_dm_def grid2_def
      sample_rmd_def pc_pre_def pc_rgb_pre_def conv_pre_def same_size_def wf_Mat_def elem_def)

theorem nothing_converged_witness:
  "pc_pre (depthmap diverged_st) \<and> pc_rgb_pre (depthmap diverged_st)
   \<and> conv_pre (depthmap diverged_st)
   \<and> CONVERGED sample_rmd \<notin> set (data (getConvergenceMap (depthmap diverged_st)))
   \<and> publishPointCloud sample_rmd diverged_st = Inr diverged_st
   \<and> publishPointCloudRGB sample_rmd diverged_st = Inr diverged_st
   \<and> elem (getConvergenceMap (depthmap diverged_st)) 1 0 = DIVERGED sample_rmd
   \<and> (\<exists>s3. publishConvergenceMap sample_rmd diverged_st = Inr s3
         \<and> at (colored s3) 0 0 = Inr (gray3 10)
         \<and> at (colored s3) 1 0 = Inr \<lparr>ch0 = 30, ch1 = 30, ch2 = 255\<rparr>)
   \<and> pc_pre (depthmap diverged_white_st) \<and> pc_rgb_pre (depthmap diverged_white_st)
   \<and> conv_pre (depthmap diverged_white_st)
   \<and> CONVERGED sample_rmd \<notin> set (data (getConvergenceMap (depthmap diverged_white_st)))
   \<and> elem (getConvergenceMap (depthmap diverged_white_st)) 1 0 = DIVERGED sample_rmd
   \<and> (\<exists>s3. publishConvergenceMap sample_rmd diverged_white_st = Inr s3
         \<and> colored s3 = cvtColor_GRAY2BGR (getReferenceImage (depthmap diverged_white_st)))"
proof -
  obtain s1 s2 s3 where
    s1: "publishPointCloud sample_rmd diverged_st = Inr s1"
      "points (pc diverged_st) = [] \<longrightarrow> s1 = diverged_st"
    and s2: "publishPointCloudRGB sample_rmd diverged_st = Inr s2"
      "points (pc_rgb diverged_st) = [] \<longrightarrow> s2 = diverged_st"
    and s3: "publishConvergenceMap sample_rmd diverged_st = Inr s3"
      "\<forall>y x. y < rows (getReferenceImage (depthmap diverged_st))
              \<and> x < cols (getReferenceImage (depthmap diverged_st))
              \<and> elem (getConvergenceMap (depthmap diverged_st)) y x \<noteq> DIVERGED sample_rmd \<longrightarrow>
            at (colored s3) y x = Inr (gray3 (elem (getReferenceImage (depthmap diverged_st)) y x))"
      "\<forall>y x. y < rows (getReferenceImage (depthmap diverged_st))
              \<and> x < cols (getReferenceImage (depthmap diverged_st))
              \<and> elem (getConvergenceMap (depthmap diverged_st)) y x = DIVERGED sample_rmd \<longrightarrow>
            at (colored s3) y x
              = Inr \<lparr>ch0 = elem (getReferenceImage (depthmap diverged_st)) y x,
                     ch1 = elem (getReferenceImage (depthmap diverged_st)) y x, ch2 = 255\<rparr>"
    using nothing_converged [OF diverged_st_pre(2,3,1) diverged_st_facts(1)] by blast
  have a: "at (colored s3) 0 0 = Inr (gray3 10)"
    using s3(2) diverged_st_facts(4,5,7,9) by metis
  have b: "at (colored s3) 1 0 = Inr \<lparr>ch0 = 30, ch1 = 30, ch2 = 255\<rparr>"
    using s3(3) diverged_st_facts(5,6,8,10) by metis
  have first: "\<exists>s3. publishConvergenceMap sample_rmd diverged_st = Inr s3
         \<and> at (colored s3) 0 0 = Inr (gray3 10)
         \<and> at (colored s3) 1 0 = Inr \<lparr>ch0 = 30, ch1 = 30, ch2 = 255\<rparr>"
    using s3(1) a b by blast
  obtain t3 where t3: "publishConvergenceMap sample_rmd diverged_white_st = Inr t3"
    "colored t3 = cvtColor_GRAY2BGR (getReferenceImage (depthmap diverged_white_st)) \<longleftrightarrow>
            (\<forall>sg \<in> set (zip (data (getConvergenceMap (depthmap diverged_white_st)))
                              (data (getReferenceImage (depthmap diverged_white_st)))).
               fst sg = DIVERGED sample_rmd \<longrightarrow> snd sg = 255)"
    using nothing_converged [OF diverged_white_st_facts(1,2,3,4)] by blast
  have second: "\<exists>s3. publishConvergenceMap sample_rmd diverged_white_st = Inr s3
         \<and> colored s3 = cvtColor_GRAY2BGR (getReferenceImage (depthmap diverged_white_st))"
    using t3 diverged_white_st_facts(5) by blast
  have p: "publishPointCloud sample_rmd diverged_st = Inr diverged_st"
    "publishPointCloudRGB sample_rmd diverged_st = Inr diverged_st"
    using s1 s2 diverged_st_facts(2,3) by simp_all
  show ?thesis
    using first second p diverged_st_pre diverged_st_facts(1,8) diverged_white_st_facts(1,2,3,4,6)
    by (intro conjI)
qed

lemma diverged_after_sample:
  "pc_pre (depthmap ((pc_after sample_rmd sample_st)\<lparr>depthmap := depthmap diverged_st\<rparr>))"
  "points (pc ((pc_after sample_rmd sample_st)\<lparr>depthmap := depthmap diverged_st\<rparr>))
   = points (pc (pc_after sample_rmd sample_st))"
  "nh_ok ((pc_after sample_rmd sample_st)\<lparr>depthmap := depthmap diverged_st\<rparr>)"
  "published ((pc_after sample_rmd sample_st)\<lparr>depthmap := depthmap diverged_st\<rparr>)
   = [PointCloud_msg (pc (pc_after sample_rmd sample_st))]"
proof -
  have ne: "points (pc (pc_after sample_rmd sample_st)) \<noteq> []"
    using sample_points_after(1) by auto
  have up: "nh_ok sample_st" "published sample_st = []"
    by (simp_all add: sample_st_def Publisher_new_def)
  show "pc_pre (depthmap ((pc_after sample_rmd sample_st)\<lparr>depthmap := depthmap diverged_st\<rparr>))"
    by (simp add: diverged_st_pre)
  show "points (pc ((pc_after sample_rmd sample_st)\<lparr>depthmap := depthmap diverged_st\<rparr>))
   = points (pc (pc_after sample_rmd sample_st))"
    by simp
  show "nh_ok ((pc_after sample_rmd sample_st)\<lparr>depthmap := depthmap diverged_st\<rparr>)"
    using up by (simp add: pc_after_frame)
  show "published ((pc_after sample_rmd sample_st)\<lparr>depthmap := depthmap diverged_st\<rparr>)
   = [PointCloud_msg (pc (pc_after sample_rmd sample_st))]"
    using ne up published_pc_after [of sample_rmd sample_st] by simp
qed

text \<open>
  C6 as stated fails in both halves. After one projection of the sample snapshot the
  estimator replaces it by a snapshot with no CONVERGED pixel; the next call of
  \<open>publishPointCloud\<close> does not produce an empty point set: it publishes the 2 points that
  \<open>pc_\<close> still holds. And the image rendered from that snapshot is not the gray-replicated
  input, because its DIVERGED pixel (1,0), of gray value 30, has channel 2 set to 255.
\<close>

theorem nothing_converged_counterexample:
  "CONVERGED sample_rmd \<notin> set (data (getConvergenceMap (depthmap diverged_st)))
   \<and> publishPointCloud sample_rmd sample_st = Inr (pc_after sample_rmd sample_st)
   \<and> publishPointCloud sample_rmd ((pc_after sample_rmd sample_st)\<lparr>depthmap := depthmap diverged_st\<rparr>)
       = Inr (pc_after sample_rmd
               ((pc_after sample_rmd sample_st)\<lparr>depthmap := depthmap diverged_st\<rparr>))
   \<and> length (points (pc (pc_after sample_rmd
               ((pc_after sample_rmd sample_st)\<lparr>depthmap := depthmap diverged_st\<rparr>)))) = 2
   \<and> published (pc_after sample_rmd
               ((pc_after sample_rmd sample_st)\<lparr>depthmap := depthmap diverged_st\<rparr>))
       = [PointCloud_msg (pc (pc_after sample_rmd sample_st)),
          PointCloud_msg (pc (pc_after sample_rmd
               ((pc_after sample_rmd sample_st)\<lparr>depthmap := depthmap diverged_st\<rparr>)))]
   \<and> publishConvergenceMap sample_rmd diverged_st = Inr (conv_after sample_rmd diverged_st)
   \<and> at (colored (conv_after sample_rmd diverged_st)) 1 0 = Inr \<lparr>ch0 = 30, ch1 = 30, ch2 = 255\<rparr>
   \<and> at (cvtColor_GRAY2BGR (getReferenceImage (depthmap diverged_st))) 1 0
        = Inr \<lparr>ch0 = 30, ch1 = 30, ch2 = 30\<rparr>
   \<and> colored (conv_after sample_rmd diverged_st)
        \<noteq> cvtColor_GRAY2BGR (getReferenceImage (depthmap diverged_st))"
proof -
  let ?a = "pc_after sample_rmd sample_st"
  let ?a' = "?a\<lparr>depthmap := depthmap diverged_st\<rparr>"
  let ?b = "pc_after sample_rmd ?a'"
  have c1: "publishPointCloud sample_rmd sample_st = Inr ?a"
    using sample_pc_pre by (rule publishPointCloud_total)
  have c2: "publishPointCloud sample_rmd ?a' = Inr ?b"
    using diverged_after_sample(1) by (rule publishPointCloud_total)
  have size: "same_size (getDepthmap (depthmap diverged_st)) (getConvergenceMap (depthmap diverged_st))"
    using diverged_st_pre(2) by (simp add: pc_pre_def)
  have none: "converged_pixels sample_rmd (depthmap ?a') = []"
    using no_converged_pixels(1) [OF size diverged_st_facts(1)] by simp
  have pts: "points (pc ?b) = points (pc ?a)"
    using none by (simp add: points_pc_after)
  then have len: "length (points (pc ?b)) = 2"
    using sample_points_after(1) by simp
  have "points (pc ?b) \<noteq> []"
    using len by auto
  then have pub: "published ?b = [PointCloud_msg (pc ?a), PointCloud_msg (pc ?b)]"
    using published_pc_after [of sample_rmd ?a'] diverged_after_sample(3,4) by simp
  have rc: "same_size (getReferenceImage (depthmap diverged_st))
                (getConvergenceMap (depthmap diverged_st))"
    using diverged_st_pre(1) by (simp add: conv_pre_def)
  have a: "at (colored (conv_after sample_rmd diverged_st)) 1 0
           = Inr \<lparr>ch0 = 30, ch1 = 30, ch2 = 255\<rparr>"
    using at_render [OF rc diverged_st_facts(6,5), of sample_rmd] diverged_st_facts(8,10)
    by (simp add: colored_conv_after tint_def sample_rmd_def)
  have b: "at (cvtColor_GRAY2BGR (getReferenceImage (depthmap diverged_st))) 1 0
           = Inr \<lparr>ch0 = 30, ch1 = 30, ch2 = 30\<rparr>"
    by (simp add: diverged_st_def Publisher_new_def sample_dm_def grid2_def
        cvtColor_GRAY2BGR_def at_def in_range_def)
  have ne: "colored (conv_after sample_rmd diverged_st)
        \<noteq> cvtColor_GRAY2BGR (getReferenceImage (depthmap diverged_st))"
    using a b by auto
  have c3: "publishConvergenceMap sample_rmd diverged_st = Inr (conv_after sample_rmd diverged_st)"
    using diverged_st_pre(1) by (rule publishConvergenceMap_total)
  show ?thesis
    using diverged_st_facts(1) c1 c2 len pub c3 a b ne by (intro conjI)
qed

section \<open>The size of the published clouds\<close>

theorem publishPointCloud_converged_witness:
  "pc_pre (depthmap sample_st)
   \<and> (\<exists>st'. publishPointCloud sample_rmd sample_st = Inr st'
         \<and> length (points (pc st')) = 2)
   \<and> pc_pre (depthmap (pc_after sample_rmd sample_st))
   \<and> length (points (pc (pc_after sample_rmd sample_st))) = 2
   \<and> (\<exists>st'. publishPointCloud sample_rmd (pc_after sample_rmd sample_st) = Inr st'
         \<and> length (points (pc st')) = 2 + 2)"
proof -
  let ?a = "pc_after sample_rmd sample_st"
  have pre: "pc_pre (depthmap ?a)"
    using sample_pc_pre by (simp add: pc_after_frame)
  have cnt: "count_list (data (getConvergenceMap (depthmap sample_st))) (CONVERGED sample_rmd) = 2"
    by (simp add: sample_st_def Publisher_new_def sample_dm_def grid2_def sample_rmd_def)
  have e: "points (pc sample_st) = []"
    by (simp add: sample_st_def Publisher_new_def empty_cloud_def)
  have "\<exists>st'. publishPointCloud sample_rmd sample_st = Inr st' \<and> length (points (pc st')) = 2"
    using publishPointCloud_converged [OF sample_pc_pre, of sample_rmd] cnt e by auto
  moreover have "\<exists>st'. publishPointCloud sample_rmd ?a = Inr st'
         \<and> length (points (pc st')) = 2 + 2"
    using publishPointCloud_converged [OF pre, of sample_rmd] cnt sample_points_after(1)
    by (auto simp: pc_after_frame)
  ultimately show ?thesis
    using sample_pc_pre pre sample_points_after(1) by (intro conjI)
qed

text \<open>
  C2 as stated fails: on the sample snapshot, which has 2 CONVERGED pixels, the second
  call of \<open>publishPointCloud\<close> publishes a cloud of 4 points, because the 2 points of the
  first call are still in \<open>pc_\<close>.
\<close>

theorem publishPointCloud_count_counterexample:
  "count_list (data (getConvergenceMap (depthmap (pc_after sample_rmd sample_st))))
     (CONVERGED sample_rmd) = 2
   \<and> publishPointCloud sample_rmd sample_st = Inr (pc_after sample_rmd sample_st)
   \<and> publishPointCloud sample_rmd (pc_after sample_rmd sample_st)
       = Inr (pc_after sample_rmd (pc_after sample_rmd sample_st))
   \<and> length (points (pc (pc_after sample_rmd (pc_after sample_rmd sample_st)))) = 4
   \<and> last (published (pc_after sample_rmd (pc_after sample_rmd sample_st)))
       = PointCloud_msg (pc (pc_after sample_rmd (pc_after sample_rmd sample_st)))"
proof -
  let ?a = "pc_after sample_rmd sample_st"
  let ?b = "pc_after sample_rmd ?a"
  have pre: "pc_pre (depthmap ?a)"
    using sample_pc_pre by (simp add: pc_after_frame)
  have cnt: "count_list (data (getConvergenceMap (depthmap ?a))) (CONVERGED sample_rmd) = 2"
    by (simp add: pc_after_frame)
      (simp add: sample_st_def Publisher_new_def sample_dm_def grid2_def sample_rmd_def)
  have c1: "publishPointCloud sample_rmd sample_st = Inr ?a"
    using sample_pc_pre by (rule publishPointCloud_total)
  have c2: "publishPointCloud sample_rmd ?a = Inr ?b"
    using pre by (rule publishPointCloud_total)
  have ne: "points (pc ?b) \<noteq> []"
    using sample_points_after(2) by auto
  have up: "nh_ok ?a"
    by (simp add: pc_after_frame) (simp add: sample_st_def Publisher_new_def)
  have "last (published ?b) = PointCloud_msg (pc ?b)"
    using ne up published_pc_after [of sample_rmd ?a] by simp
  then show ?thesis
    using cnt c1 c2 sample_points_after(2) by (intro conjI)
qed

text \<open>
  C3, as the code has it. On a snapshot whose depth map, convergence map, mask and colour
  image have the same dimensions, \<open>publishPointCloudRGB\<close> returns and appends to \<open>pc_rgb_\<close>
  one point for every pixel that is CONVERGED with mask value 1, and for no other, in
  raster order; the number of points it adds is the number of positions where the
  convergence map is CONVERGED and the mask is 1.
\<close>

theorem publishPointCloudRGB_masked:
  assumes "pc_rgb_pre (depthmap st)"
  shows "\<exists>st'. publishPointCloudRGB env st = Inr st'
     \<and> points (pc_rgb st') = points (pc_rgb st)
          @ map (pc_rgb_point env (depthmap st)) (masked_pixels env (depthmap st))
     \<and> length (points (pc_rgb st')) = length (points (pc_rgb st))
          + length (filter (\<lambda>cm. fst cm = CONVERGED env \<and> snd cm = 1)
              (zip (data (getConvergenceMap (depthmap st)))
                   (data (getReferenceMask (depthmap st)))))
     \<and> length (masked_pixels env (depthmap st))
          = length (filter (\<lambda>cm. fst cm = CONVERGED env \<and> snd cm = 1)
              (zip (data (getConvergenceMap (depthmap st)))
                   (data (getReferenceMask (depthmap st)))))
     \<and> (\<forall>p \<in> set (masked_pixels env (depthmap st)).
           at (getConvergenceMap (depthmap st)) (fst p) (snd p) = Inr (CONVERGED env)
           \<and> at (getReferenceMask (depthmap st)) (fst p) (snd p) = Inr 1)
     \<and> sorted_wrt raster_less (masked_pixels env (depthmap st))"
proof -
  have len: "length (masked_pixels env (depthmap st))
              = length (filter (\<lambda>cm. fst cm = CONVERGED env \<and> snd cm = 1)
                  (zip (data (getConvergenceMap (depthmap st)))
                       (data (getReferenceMask (depthmap st)))))"
    using assms by (simp add: pc_rgb_pre_def length_masked_pixels)
  show ?thesis
    using publishPointCloudRGB_total [OF assms, of env] points_pc_rgb_after [of env st] len
    by (simp add: set_masked_pixels sorted_masked_pixels)
qed

lemma sample_mask_count:
  "length (filter (\<lambda>cm. fst cm = CONVERGED sample_rmd \<and> snd cm = 1)
          (zip (data (getConvergenceMap (depthmap sample_st)))
               (data (getReferenceMask (depthmap sample_st))))) = 1"
  by (simp add: sample_st_def Publisher_new_def sample_dm_def grid2_def sample_rmd_def)

lemma sample_rgb_points_after:
  "length (points (pc_rgb (pc_rgb_after sample_rmd sample_st))) = 1"
  "length (points (pc_rgb (pc_rgb_after sample_rmd (pc_rgb_after sample_rmd sample_st)))) = 2"
  by (simp_all add: points_pc_rgb_after pc_rgb_after_frame sample_st_depthmap sample_masked_pixels)
    (simp_all add: sample_st_def Publisher_new_def empty_cloud_def)

theorem publishPointCloudRGB_masked_witness:
  "pc_rgb_pre (depthmap sample_st)
   \<and> (\<exists>st'. publishPointCloudRGB sample_rmd sample_st = Inr st'
         \<and> length (points (pc_rgb st')) = 1)
   \<and> pc_rgb_pre (depthmap (pc_rgb_after sample_rmd sample_st))
   \<and> length (points (pc_rgb (pc_rgb_after sample_rmd sample_st))) = 1
   \<and> (\<exists>st'. publishPointCloudRGB sample_rmd (pc_rgb_after sample_rmd sample_st) = Inr st'
         \<and> length (points (pc_rgb st')) = 1 + 1)"
proof -
  let ?a = "pc_rgb_after sample_rmd sample_st"
  have pre: "pc_rgb_pre (depthmap ?a)"
    using sample_pc_rgb_pre by (simp add: pc_rgb_after_frame)
  have e: "points (pc_rgb sample_st) = []"
    by (simp add: sample_st_def Publisher_new_def empty_cloud_def)
  have "\<exists>st'. publishPointCloudRGB sample_rmd sample_st = Inr st'
         \<and> length (points (pc_rgb st')) = 1"
    using publishPointCloudRGB_masked [OF sample_pc_rgb_pre, of sample_rmd] sample_mask_count e
    by auto
  moreover have "\<exists>st'. publishPointCloudRGB sample_rmd ?a = Inr st'
         \<and> length (points (pc_rgb st')) = 1 + 1"
    using publishPointCloudRGB_masked [OF pre, of sample_rmd] sample_mask_count
      sample_rgb_points_after(1)
    by (auto simp: pc_rgb_after_frame)
  ultimately show ?thesis
    using sample_pc_rgb_pre pre sample_rgb_points_after(1) by (intro conjI)
qed

text \<open>
  C3 as stated fails: the sample snapshot has one pixel that is CONVERGED with mask value
  1, and the second call of \<open>publishPointCloudRGB\<close> publishes a cloud of 2 points, because
  the point of the first call is still in \<open>pc_rgb_\<close>.
\<close>

theorem publishPointCloudRGB_count_counterexample:
  "length (filter (\<lambda>cm. fst cm = CONVERGED sample_rmd \<and> snd cm = 1)
          (zip (data (getConvergenceMap (depthmap (pc_rgb_after sample_rmd sample_st))))
               (data (getReferenceMask (depthmap (pc_rgb_after sample_rmd sample_st)))))) = 1
   \<and> publishPointCloudRGB sample_rmd sample_st = Inr (pc_rgb_after sample_rmd sample_st)
   \<and> publishPointCloudRGB sample_rmd (pc_rgb_after sample_rmd sample_st)
       = Inr (pc_rgb_after sample_rmd (pc_rgb_after sample_rmd sample_st))
   \<and> length (points (pc_rgb (pc_rgb_after sample_rmd (pc_rgb_after sample_rmd sample_st)))) = 2
   \<and> last (published (pc_rgb_after sample_rmd (pc_rgb_after sample_rmd sample_st)))
       = PointCloudRGB_msg (pc_rgb (pc_rgb_after sample_rmd (pc_rgb_after sample_rmd sample_st)))"
proof -
  let ?a = "pc_rgb_after sample_rmd sample_st"
  let ?b = "pc_rgb_after sample_rmd ?a"
  have pre: "pc_rgb_pre (depthmap ?a)"
    using sample_pc_rgb_pre by (simp add: pc_rgb_after_frame)
  have cnt: "length (filter (\<lambda>cm. fst cm = CONVERGED sample_rmd \<and> snd cm = 1)
          (zip (data (getConvergenceMap (depthmap ?a)))
               (data (getReferenceMask (depthmap ?a))))) = 1"
    using sample_mask_count by (simp add: pc_rgb_after_frame)
  have c1: "publishPointCloudRGB sample_rmd sample_st = Inr ?a"
    using sample_pc_rgb_pre by (rule publishPointCloudRGB_total)
  have c2: "publishPointCloudRGB sample_rmd ?a = Inr ?b"
    using pre by (rule publishPointCloudRGB_total)
  have ne: "points (pc_rgb ?b) \<noteq> []"
    using sample_rgb_points_after(2) by auto
  have up: "nh_ok ?a"
    by (simp add: pc_rgb_after_frame) (simp add: sample_st_def Publisher_new_def)
  have "last (published ?b) = PointCloudRGB_msg (pc_rgb ?b)"
    using ne up published_pc_rgb_after [of sample_rmd ?a] by simp
  then show ?thesis
    using cnt c1 c2 sample_rgb_points_after(2) by (intro conjI)
qed

end
